theory Spec2Isabelle
  imports Main "HOL-Library.Sublist"
begin

section \<open>Python string operations used by the release scripts\<close>

text \<open>
  Python strings are modelled as \<open>string\<close> (character lists). Only the string
  methods the release scripts call are modelled, each with Python's behaviour.
\<close>

text \<open>\<^verbatim>\<open>s.startswith(p)\<close>\<close>

definition str_startswith :: "string \<Rightarrow> string \<Rightarrow> bool" where
  "str_startswith s p = (take (length p) s = p)"

text \<open>\<^verbatim>\<open>s.endswith(p)\<close>\<close>

definition str_endswith :: "string \<Rightarrow> string \<Rightarrow> bool" where
  "str_endswith s p = (length p \<le> length s \<and> drop (length s - length p) s = p)"

text \<open>
  \<^verbatim>\<open>s.split(sep)\<close> for a one-character separator: the scan keeps the part read
  so far in \<open>cur\<close> (reversed) and closes it at every separator and at the end, so
  the result is never empty and empty parts are kept.
\<close>

fun split_scan :: "char \<Rightarrow> string \<Rightarrow> string \<Rightarrow> string list" where
  "split_scan sep cur [] = [rev cur]"
| "split_scan sep cur (c # cs) =
     (if c = sep then rev cur # split_scan sep [] cs
      else split_scan sep (c # cur) cs)"

definition str_split :: "string \<Rightarrow> char \<Rightarrow> string list" where
  "str_split s sep = split_scan sep [] s"

text \<open>
  \<^verbatim>\<open>s.find(sub)\<close>: the lowest index at which \<open>sub\<close> occurs in \<open>s\<close>, or \<open>-1\<close>.
\<close>

fun find_from :: "nat \<Rightarrow> string \<Rightarrow> string \<Rightarrow> int" where
  "find_from i [] sub = (if sub = [] then int i else - 1)"
| "find_from i (c # cs) sub =
     (if str_startswith (c # cs) sub then int i else find_from (Suc i) cs sub)"

definition str_find :: "string \<Rightarrow> string \<Rightarrow> int" where
  "str_find s sub = find_from 0 s sub"

section \<open>release.py: the version validator\<close>

text \<open>
  \<^verbatim>\<open>
  def validate_version(version: str) -> bool:
      if not version.startswith('v'):
          return False
      ver = version[1:]
      parts = ver.split('.')
      if len(parts) < 2:
          return False
      return True
  \<close>
  (the two \<open>print_colored\<close> calls only write to the terminal).
\<close>

definition validate_version :: "string \<Rightarrow> bool" where
  "validate_version version =
     (if \<not> str_startswith version ''v'' then False
      else
        let ver = drop 1 version;
            parts = str_split ver CHR ''.''
        in if length parts < 2 then False else True)"

text \<open>
  The validator as the specification words it: the prefix character, then at least
  two dot-separated components, each of them numeric (a non-empty run of digits) or
  an identifier (a letter or underscore followed by letters, digits and underscores).
\<close>

definition is_digit :: "char \<Rightarrow> bool" where
  "is_digit c = (c \<in> set ''0123456789'')"

definition is_letter :: "char \<Rightarrow> bool" where
  "is_letter c =
     (c \<in> set ''abcdefghijklmnopqrstuvwxyz'' \<or> c \<in> set ''ABCDEFGHIJKLMNOPQRSTUVWXYZ'')"

definition is_numeric :: "string \<Rightarrow> bool" where
  "is_numeric p = (p \<noteq> [] \<and> list_all is_digit p)"

definition is_identifier :: "string \<Rightarrow> bool" where
  "is_identifier p =
     (case p of [] \<Rightarrow> False
      | c # cs \<Rightarrow> (is_letter c \<or> c = CHR ''_'') \<and>
          list_all (\<lambda>d. is_letter d \<or> is_digit d \<or> d = CHR ''_'') cs)"

definition spec_tag_valid :: "string \<Rightarrow> bool" where
  "spec_tag_valid tag =
     (case tag of [] \<Rightarrow> False
      | c # rest \<Rightarrow> c = CHR ''v'' \<and> 2 \<le> length (str_split rest CHR ''.'') \<and>
          list_all (\<lambda>p. is_numeric p \<or> is_identifier p) (str_split rest CHR ''.''))"


section \<open>Files, paths and errors\<close>

text \<open>
  File contents are byte strings (\<open>char\<close> is a byte). A \<^verbatim>\<open>pathlib.Path\<close> is the list
  of its components; the file system maps a path to a file or a directory. The Python
  exceptions the scripts can meet are values of \<open>error\<close>.
\<close>

type_synonym bytes = string
type_synonym path = "string list"
datatype node = File bytes | Dir
type_synonym fs = "path \<Rightarrow> node option"

datatype error =
    SystemExit string
  | HTTPError nat string
  | URLError string
  | FileNotFoundError path
  | IsADirectoryError path
  | NotADirectoryError path
  | FileExistsError path
  | TypeError string

section \<open>release.py: the checksum generator\<close>

text \<open>
  \<^verbatim>\<open>hashlib\<close> is not part of the repository: a hash object is a parameter, given by
  its constructor, \<^verbatim>\<open>update\<close> and \<^verbatim>\<open>digest\<close>; \<^verbatim>\<open>hexdigest\<close> is the digest in lowercase
  hexadecimal, two digits per byte.
\<close>

record 'h hashlib =
  h_new :: 'h
  h_update :: "'h \<Rightarrow> bytes \<Rightarrow> 'h"
  h_digest :: "'h \<Rightarrow> bytes"

definition hex_digit :: "nat \<Rightarrow> char" where
  "hex_digit n = ''0123456789abcdef'' ! (n mod 16)"

definition hex_byte :: "char \<Rightarrow> string" where
  "hex_byte c = [hex_digit (of_char c div 16), hex_digit (of_char c mod 16)]"

definition hexdigest :: "'h hashlib \<Rightarrow> 'h \<Rightarrow> string" where
  "hexdigest H h = concat (map hex_byte (h_digest H h))"

text \<open>An open binary file: its bytes and the read position. \<^verbatim>\<open>f.read(n)\<close> returns at
  most \<open>n\<close> bytes from the position and advances it; at the end it returns \<^verbatim>\<open>b""\<close>.\<close>

record file_obj =
  content :: bytes
  pos :: nat

definition file_read :: "file_obj \<Rightarrow> nat \<Rightarrow> bytes \<times> file_obj" where
  "file_read f n =
     (let block = take n (drop (pos f) (content f))
      in (block, f\<lparr>pos := pos f + length block\<rparr>))"

text \<open>
  \<^verbatim>\<open>
  def calculate_sha256(filepath: Path) -> str:
      sha256_hash = hashlib.sha256()
      with open(filepath, "rb") as f:
          for byte_block in iter(lambda: f.read(4096), b""):
              sha256_hash.update(byte_block)
      return sha256_hash.hexdigest()
  \<close>
  \<open>read_blocks\<close> is the \<^verbatim>\<open>for\<close> loop: \<^verbatim>\<open>iter(callable, sentinel)\<close> calls \<^verbatim>\<open>f.read(4096)\<close>
  until it returns the empty block.
\<close>

function read_blocks :: "'h hashlib \<Rightarrow> 'h \<Rightarrow> file_obj \<Rightarrow> 'h" where
  "read_blocks H h f =
     (case file_read f 4096 of
        (byte_block, f') \<Rightarrow>
          if byte_block = [] then h
          else read_blocks H (h_update H h byte_block) f')"
  by pat_completeness auto
termination
  by (relation "measure (\<lambda>(H, h, f). length (content f) - pos f)")
     (auto simp: file_read_def Let_def)

declare read_blocks.simps [simp del]

definition calculate_sha256 :: "'h hashlib \<Rightarrow> fs \<Rightarrow> path \<Rightarrow> error + string" where
  "calculate_sha256 H fs filepath =
     (case fs filepath of
        None \<Rightarrow> Inl (FileNotFoundError filepath)
      | Some Dir \<Rightarrow> Inl (IsADirectoryError filepath)
      | Some (File data) \<Rightarrow>
          let sha256_hash = h_new H;
              sha256_hash = read_blocks H sha256_hash \<lparr>content = data, pos = 0\<rparr>
          in Inr (hexdigest H sha256_hash))"

text \<open>
  The contract of a \<^verbatim>\<open>hashlib\<close> object: feeding \<open>a\<close> and then \<open>b\<close> is feeding
  \<open>a + b\<close>, and feeding nothing changes nothing.
\<close>

definition streaming :: "'h hashlib \<Rightarrow> bool" where
  "streaming H \<longleftrightarrow>
     (\<forall>h a b. h_update H (h_update H h a) b = h_update H h (a @ b)) \<and>
     (\<forall>h. h_update H h [] = h)"

text \<open>The one-shot reference: the digest of the whole content fed at once.\<close>

definition reference_hexdigest :: "'h hashlib \<Rightarrow> bytes \<Rightarrow> string" where
  "reference_hexdigest H data = hexdigest H (h_update H (h_new H) data)"

text \<open>A small hash object that meets the contract: the sum of the bytes.\<close>

definition byte_sum_hash :: "nat hashlib" where
  "byte_sum_hash =
     \<lparr>h_new = 0,
      h_update = (\<lambda>h b. h + sum_list (map of_char b)),
      h_digest = (\<lambda>h. [char_of (h div 256), char_of (h mod 256)])\<rparr>"

section \<open>The remote release host\<close>

text \<open>
  The hosting API is outside the repository. A run talks to it through requests, one
  constructor per call the scripts make:
  \<^item> \<open>GetRepo token slug\<close>: \<^verbatim>\<open>Github(token).get_repo(slug)\<close>;
  \<^item> \<open>GetReleaseByTag token repo tag\<close>: \<^verbatim>\<open>GET /repos/{repo}/releases/tags/{tag}\<close>;
  \<^item> \<open>CreateRelease token repo payload\<close>: \<^verbatim>\<open>POST /repos/{repo}/releases\<close>;
  \<^item> \<open>UploadAsset token url name content_type data\<close>: \<^verbatim>\<open>POST {url}?name={name}\<close>.

  The remote is a parameter: given the requests already sent in this run and the next
  request, it answers with a JSON object or fails, with an HTTP status
  (\<open>HTTPError\<close>) or without any HTTP response (\<open>URLError\<close>). Every function that
  sends a request returns the list of requests sent so far.
\<close>

record release_payload =
  p_tag_name :: string
  p_name :: string
  p_body :: string
  p_draft :: bool
  p_prerelease :: bool
  p_target_commitish :: "string option"

datatype request =
    GetRepo string string
  | GetReleaseByTag string string string
  | CreateRelease string string release_payload
  | UploadAsset string string string string bytes

type_synonym json = "string \<Rightarrow> string option"

type_synonym remote = "request list \<Rightarrow> request \<Rightarrow> error + json"

definition urlopen :: "remote \<Rightarrow> request \<Rightarrow> request list \<Rightarrow> (error + json) \<times> request list" where
  "urlopen R req sent = (R sent req, sent @ [req])"

text \<open>\<^verbatim>\<open>s.strip()\<close>: whitespace removed at both ends.\<close>

definition is_space :: "char \<Rightarrow> bool" where
  "is_space c =
     (c \<in> {CHR '' '', CHR 0x09, CHR 0x0A, CHR 0x0B, CHR 0x0C, CHR 0x0D,
            CHR 0x1C, CHR 0x1D, CHR 0x1E, CHR 0x1F})"

definition str_strip :: "string \<Rightarrow> string" where
  "str_strip s = rev (dropWhile is_space (rev (dropWhile is_space s)))"

section \<open>scripts/release.py: the release publisher\<close>

text \<open>
  \<^verbatim>\<open>
  def create_or_get_release(token, repo, tag, name, notes, draft, prerelease) -> dict:
      try:
          return gh_api(token, "GET", f".../repos/{repo}/releases/tags/{quote(tag)}")
      except HTTPError:
          pass
      target = subprocess.run(["git", "rev-parse", "HEAD"], capture_output=True, ...)
      target_commitish = (target.stdout or "").strip() or "main"
      payload = {"tag_name": tag, "name": name or tag, "body": notes or "",
                 "draft": draft, "prerelease": prerelease,
                 "target_commitish": target_commitish}
      return gh_api(token, "POST", f".../repos/{repo}/releases", payload)
  \<close>
  \<open>git_stdout\<close> is the output of \<^verbatim>\<open>git rev-parse HEAD\<close> (empty when it fails).
  The \<^verbatim>\<open>except\<close> clause catches \<^verbatim>\<open>HTTPError\<close> with any status; every other
  exception of the lookup leaves the function.
\<close>

definition create_or_get_release ::
  "remote \<Rightarrow> string \<Rightarrow> string \<Rightarrow> string \<Rightarrow> string \<Rightarrow> string \<Rightarrow> string \<Rightarrow> bool \<Rightarrow> bool \<Rightarrow>
   request list \<Rightarrow> (error + json) \<times> request list" where
  "create_or_get_release R git_stdout token repo tag name notes draft prerelease sent =
     (case urlopen R (GetReleaseByTag token repo tag) sent of
        (Inr rel, sent1) \<Rightarrow> (Inr rel, sent1)
      | (Inl (HTTPError code msg), sent1) \<Rightarrow>
          let target_commitish =
                (if str_strip git_stdout = [] then ''main'' else str_strip git_stdout);
              payload = \<lparr>p_tag_name = tag,
                         p_name = (if name = [] then tag else name),
                         p_body = notes,
                         p_draft = draft,
                         p_prerelease = prerelease,
                         p_target_commitish = Some target_commitish\<rparr>
          in urlopen R (CreateRelease token repo payload) sent1
      | (Inl e, sent1) \<Rightarrow> (Inl e, sent1))"

text \<open>
  \<^verbatim>\<open>
  def gh_upload_asset(token, upload_url_template, asset_path) -> None:
      base = upload_url_template.split("{", 1)[0]
      url = f"{base}?{urlencode({'name': asset_path.name})}"
      data = asset_path.read_bytes()
      req = Request(url, data=data, headers=headers, method="POST")
      try:
          with urlopen(req) as resp:
              _ = resp.read()
      except HTTPError as e:
          raise SystemExit(f"Asset upload failed ({e.code}): {e.read().decode(...)}")
  \<close>
\<close>

definition read_bytes :: "fs \<Rightarrow> path \<Rightarrow> error + bytes" where
  "read_bytes fs p =
     (case fs p of
        None \<Rightarrow> Inl (FileNotFoundError p)
      | Some Dir \<Rightarrow> Inl (IsADirectoryError p)
      | Some (File data) \<Rightarrow> Inr data)"

definition path_name :: "path \<Rightarrow> string" where
  "path_name p = (if p = [] then [] else last p)"

text \<open>\<^verbatim>\<open>str(n)\<close> for a natural number, as the f-string prints the status code.\<close>

function str_of_nat :: "nat \<Rightarrow> string" where
  "str_of_nat n =
     (if n < 10 then [''0123456789'' ! n]
      else str_of_nat (n div 10) @ [''0123456789'' ! (n mod 10)])"
  by pat_completeness auto
termination
  by (relation "measure id") auto

definition upload_failed :: "nat \<Rightarrow> string \<Rightarrow> error" where
  "upload_failed code msg =
     SystemExit (''Asset upload failed ('' @ str_of_nat code @ ''): '' @ msg)"

definition gh_upload_asset ::
  "remote \<Rightarrow> string \<Rightarrow> string \<Rightarrow> path \<Rightarrow> fs \<Rightarrow> request list \<Rightarrow>
   (error + unit) \<times> request list" where
  "gh_upload_asset R token upload_url_template asset_path fs sent =
     (let base = takeWhile (\<lambda>c. c \<noteq> CHR ''{'') upload_url_template
      in case read_bytes fs asset_path of
           Inl e \<Rightarrow> (Inl e, sent)
         | Inr data \<Rightarrow>
             (case urlopen R
                     (UploadAsset token base (path_name asset_path) ''application/zip'' data)
                     sent of
                (Inr resp, sent1) \<Rightarrow> (Inr (), sent1)
              | (Inl (HTTPError code msg), sent1) \<Rightarrow> (Inl (upload_failed code msg), sent1)
              | (Inl e, sent1) \<Rightarrow> (Inl e, sent1)))"

text \<open>The upload loop of \<^verbatim>\<open>main\<close>: \<^verbatim>\<open>for z in zips: gh_upload_asset(token, upload_url, z)\<close>.
  The first exception ends the loop.\<close>

fun upload_zips ::
  "remote \<Rightarrow> string \<Rightarrow> string \<Rightarrow> path list \<Rightarrow> fs \<Rightarrow> request list \<Rightarrow>
   (error + unit) \<times> request list" where
  "upload_zips R token upload_url [] fs sent = (Inr (), sent)"
| "upload_zips R token upload_url (z # zs) fs sent =
     (case gh_upload_asset R token upload_url z fs sent of
        (Inl e, sent1) \<Rightarrow> (Inl e, sent1)
      | (Inr u, sent1) \<Rightarrow> upload_zips R token upload_url zs fs sent1)"

section \<open>File system operations (\<^verbatim>\<open>pathlib\<close>, \<^verbatim>\<open>shutil\<close>)\<close>

text \<open>Paths are relative to the project root, which always exists.\<close>

definition path_exists :: "fs \<Rightarrow> path \<Rightarrow> bool" where
  "path_exists fs p = (p = [] \<or> fs p \<noteq> None)"

definition is_dir :: "fs \<Rightarrow> path \<Rightarrow> bool" where
  "is_dir fs p = (p = [] \<or> fs p = Some Dir)"

text \<open>\<^verbatim>\<open>shutil.rmtree(p)\<close>: the directory and everything below it.\<close>

definition rmtree :: "fs \<Rightarrow> path \<Rightarrow> error + fs" where
  "rmtree fs p =
     (case fs p of
        None \<Rightarrow> Inl (FileNotFoundError p)
      | Some (File d) \<Rightarrow> Inl (NotADirectoryError p)
      | Some Dir \<Rightarrow> Inr (\<lambda>q. if prefix p q then None else fs q))"

text \<open>\<^verbatim>\<open>p.mkdir(parents=True, exist_ok=...)\<close>: the missing ancestors are created first.\<close>

definition parents :: "path \<Rightarrow> path list" where
  "parents p = map (\<lambda>n. take n p) [1..<length p]"

fun make_dirs :: "path list \<Rightarrow> fs \<Rightarrow> error + fs" where
  "make_dirs [] fs = Inr fs"
| "make_dirs (d # ds) fs =
     (case fs d of
        None \<Rightarrow> make_dirs ds (fs(d \<mapsto> Dir))
      | Some Dir \<Rightarrow> make_dirs ds fs
      | Some (File x) \<Rightarrow> Inl (NotADirectoryError d))"

definition mkdir :: "fs \<Rightarrow> path \<Rightarrow> bool \<Rightarrow> error + fs" where
  "mkdir fs p exist_ok =
     (case make_dirs (parents p) fs of
        Inl e \<Rightarrow> Inl e
      | Inr fs1 \<Rightarrow>
          (case fs1 p of
             None \<Rightarrow> Inr (fs1(p \<mapsto> Dir))
           | Some Dir \<Rightarrow> if exist_ok then Inr fs1 else Inl (FileExistsError p)
           | Some (File x) \<Rightarrow> Inl (FileExistsError p)))"

text \<open>\<^verbatim>\<open>shutil.copy2(src, dst)\<close>: \<open>src\<close> must be a file; a directory \<open>dst\<close> receives the
  file under the name of \<open>src\<close>; the directory written to must exist.\<close>

definition copy2 :: "fs \<Rightarrow> path \<Rightarrow> path \<Rightarrow> error + fs" where
  "copy2 fs src dst =
     (case read_bytes fs src of
        Inl e \<Rightarrow> Inl e
      | Inr data \<Rightarrow>
          let target = (if fs dst = Some Dir then dst @ [path_name src] else dst)
          in if fs target = Some Dir then Inl (IsADirectoryError target)
             else if \<not> is_dir fs (butlast target) then Inl (FileNotFoundError target)
             else Inr (fs(target \<mapsto> File data)))"

text \<open>\<^verbatim>\<open>p.unlink()\<close>\<close>

definition unlink :: "fs \<Rightarrow> path \<Rightarrow> error + fs" where
  "unlink fs p =
     (case fs p of
        None \<Rightarrow> Inl (FileNotFoundError p)
      | Some Dir \<Rightarrow> Inl (IsADirectoryError p)
      | Some (File d) \<Rightarrow> Inr (fs(p := None)))"

text \<open>\<^verbatim>\<open>p.write_text(s)\<close>\<close>

definition write_text :: "fs \<Rightarrow> path \<Rightarrow> string \<Rightarrow> error + fs" where
  "write_text fs p s =
     (if fs p = Some Dir then Inl (IsADirectoryError p)
      else if \<not> is_dir fs (butlast p) then Inl (FileNotFoundError p)
      else Inr (fs(p \<mapsto> File s)))"

text \<open>\<^verbatim>\<open>str(p)\<close>: the components joined by slashes.\<close>

fun path_str :: "path \<Rightarrow> string" where
  "path_str [] = ''.''"
| "path_str [c] = c"
| "path_str (c # cs) = c @ ''/'' @ path_str cs"

text \<open>
  \<^verbatim>\<open>PurePath.suffix\<close> of a file name: \<^verbatim>\<open>i = name.rfind('.')\<close>, and the suffix is
  \<^verbatim>\<open>name[i:]\<close> when \<^verbatim>\<open>0 < i < len(name) - 1\<close>, else empty.
  \<^verbatim>\<open>p.with_suffix("")\<close> removes it from the last component.
\<close>

definition name_suffix :: "string \<Rightarrow> string" where
  "name_suffix n =
     (let after = rev (takeWhile (\<lambda>c. c \<noteq> CHR ''.'') (rev n))
      in if CHR ''.'' \<notin> set n then []
         else let i = length n - length after - 1
              in if 0 < i \<and> i < length n - 1 then drop i n else [])"

definition with_suffix_empty :: "path \<Rightarrow> path" where
  "with_suffix_empty p =
     (if p = [] then []
      else butlast p @ [take (length (last p) - length (name_suffix (last p))) (last p)])"

text \<open>
  \<^verbatim>\<open>shutil.make_archive(base, "zip", root_dir=d)\<close> writes \<open>base.zip\<close> from the tree below
  \<open>d\<close>; the archive format is a parameter \<open>archive\<close> from that tree (paths relative
  to \<open>d\<close>) to bytes.
\<close>

type_synonym archiver = "(path \<Rightarrow> node option) \<Rightarrow> bytes"

definition tree_below :: "fs \<Rightarrow> path \<Rightarrow> (path \<Rightarrow> node option)" where
  "tree_below fs d = (\<lambda>q. if q = [] then None else fs (d @ q))"

definition make_archive :: "archiver \<Rightarrow> fs \<Rightarrow> path \<Rightarrow> path \<Rightarrow> error + fs" where
  "make_archive archive fs base root_dir =
     (if base = [] then Inl (FileNotFoundError base)
      else
        let out = butlast base @ [last base @ ''.zip'']
        in if fs root_dir \<noteq> Some Dir then Inl (NotADirectoryError root_dir)
           else if fs out = Some Dir then Inl (IsADirectoryError out)
           else if \<not> is_dir fs (butlast out) then Inl (FileNotFoundError out)
           else Inr (fs(out \<mapsto> File (archive (tree_below fs root_dir)))))"

section \<open>External commands\<close>

text \<open>
  The Go compiler is outside the repository. A build is given its command line and the
  environment variables set for it, and it fails with a return code, or returns
  successfully without writing the output file, or writes the binary.
\<close>

datatype compile_result = CompileError nat | NoOutput | Binary bytes

type_synonym go_build = "string list \<Rightarrow> (string \<Rightarrow> string option) \<Rightarrow> compile_result"

text \<open>Running the compiler: the return code and the file system afterwards; a
  successful build that produces output writes it at \<open>out\<close>.\<close>

definition go_run ::
  "go_build \<Rightarrow> string list \<Rightarrow> (string \<Rightarrow> string option) \<Rightarrow> path \<Rightarrow> fs \<Rightarrow> nat \<times> fs" where
  "go_run go cmd env out fs =
     (case go cmd env of
        CompileError rc \<Rightarrow> (rc, fs)
      | NoOutput \<Rightarrow> (0, fs)
      | Binary b \<Rightarrow> (0, fs(out \<mapsto> File b)))"

text \<open>A step that may raise: on an exception the file system stays as the step found
  it and the rest is skipped.\<close>

definition attempt ::
  "error + fs \<Rightarrow> fs \<Rightarrow> (fs \<Rightarrow> (error + 'a) \<times> fs) \<Rightarrow> (error + 'a) \<times> fs" where
  "attempt r fs k = (case r of Inl e \<Rightarrow> (Inl e, fs) | Inr fs1 \<Rightarrow> k fs1)"

section \<open>scripts/release.py: building and packaging\<close>

definition DIST :: path where
  "DIST = [''dist'']"

text \<open>
  \<^verbatim>\<open>
  def run(cmd, cwd=None, env=None) -> None:
      result = subprocess.run(cmd, shell=True, ...)
      if result.returncode != 0:
          raise SystemExit(f"Command failed ({result.returncode}): {cmd}")
  \<close>
\<close>

definition command_failed :: "nat \<Rightarrow> string \<Rightarrow> error" where
  "command_failed rc cmd = SystemExit (''Command failed ('' @ str_of_nat rc @ ''): '' @ cmd)"

text \<open>
  \<^verbatim>\<open>
  def build_target(goos: str, goarch: str, out_dir: Path) -> Path:
      out_dir.mkdir(parents=True, exist_ok=True)
      exe = "claracore.exe" if goos == "windows" else "claracore"
      out_path = out_dir / exe
      env = os.environ.copy()
      env["GOOS"] = goos; env["GOARCH"] = goarch; env["CGO_ENABLED"] = "0"
      run(f"go build -o {out_path} .", cwd=ROOT, env=env)
      if not out_path.exists():
          raise SystemExit(f"Expected binary not found: {out_path}")
      return out_path
  \<close>
\<close>

definition build_target ::
  "go_build \<Rightarrow> string \<Rightarrow> string \<Rightarrow> path \<Rightarrow> fs \<Rightarrow> (error + path) \<times> fs" where
  "build_target go goos goarch out_dir fs =
     attempt (mkdir fs out_dir True) fs (\<lambda>fs1.
       let exe = (if goos = ''windows'' then ''claracore.exe'' else ''claracore'');
           out_path = out_dir @ [exe];
           env = [''GOOS'' \<mapsto> goos, ''GOARCH'' \<mapsto> goarch, ''CGO_ENABLED'' \<mapsto> ''0''];
           cmd = ''go build -o '' @ path_str out_path @ '' .''
       in case go_run go [cmd] env out_path fs1 of
            (rc, fs2) \<Rightarrow>
              if rc \<noteq> 0 then (Inl (command_failed rc cmd), fs2)
              else if \<not> path_exists fs2 out_path then
                (Inl (SystemExit (''Expected binary not found: '' @ path_str out_path)), fs2)
              else (Inr out_path, fs2))"

text \<open>
  \<^verbatim>\<open>
  def stage_and_zip(goos: str, goarch: str, binary_path: Path, tag: str) -> Path:
      name = f"claracore-{tag}-{goos}-{goarch}"
      stage = DIST / name
      if stage.exists():
          shutil.rmtree(stage)
      stage.mkdir(parents=True)
      shutil.copy2(binary_path, stage / binary_path.name)
      for fname in ("README.md", "LICENSE.md", "config.example.yaml"):
          src = ROOT / fname
          if src.exists():
              shutil.copy2(src, stage / fname)
      zip_path = DIST / f"{name}.zip"
      if zip_path.exists():
          zip_path.unlink()
      shutil.make_archive(str(zip_path.with_suffix("")), "zip", root_dir=stage)
      return zip_path
  \<close>
\<close>

definition stage_name :: "string \<Rightarrow> string \<Rightarrow> string \<Rightarrow> string" where
  "stage_name tag goos goarch = ''claracore-'' @ tag @ ''-'' @ goos @ ''-'' @ goarch"

definition aux_files :: "string list" where
  "aux_files = [''README.md'', ''LICENSE.md'', ''config.example.yaml'']"

fun copy_aux :: "string list \<Rightarrow> path \<Rightarrow> fs \<Rightarrow> (error + unit) \<times> fs" where
  "copy_aux [] stage fs = (Inr (), fs)"
| "copy_aux (fname # rest) stage fs =
     (if path_exists fs [fname] then
        attempt (copy2 fs [fname] (stage @ [fname])) fs (copy_aux rest stage)
      else copy_aux rest stage fs)"

definition stage_and_zip ::
  "archiver \<Rightarrow> string \<Rightarrow> string \<Rightarrow> path \<Rightarrow> string \<Rightarrow> fs \<Rightarrow> (error + path) \<times> fs" where
  "stage_and_zip archive goos goarch binary_path tag fs =
     (let name = stage_name tag goos goarch;
          stage = DIST @ [name]
      in attempt (if path_exists fs stage then rmtree fs stage else Inr fs) fs (\<lambda>fs1.
         attempt (mkdir fs1 stage False) fs1 (\<lambda>fs2.
         attempt (copy2 fs2 binary_path (stage @ [path_name binary_path])) fs2 (\<lambda>fs3.
         case copy_aux aux_files stage fs3 of
           (Inl e, fs4) \<Rightarrow> (Inl e, fs4)
         | (Inr u, fs4) \<Rightarrow>
             let zip_path = DIST @ [name @ ''.zip'']
             in attempt (if path_exists fs4 zip_path then unlink fs4 zip_path else Inr fs4) fs4
                  (\<lambda>fs5.
                attempt (make_archive archive fs5 (with_suffix_empty zip_path) stage) fs5
                  (\<lambda>fs6. (Inr zip_path, fs6)))))))"

section \<open>scripts/release.py: the run\<close>

text \<open>
  What the run reads from outside: the two token variables, whether \<^verbatim>\<open>go version\<close>
  succeeds, the return codes of the two \<^verbatim>\<open>npm\<close> commands and whether the UI build
  leaves \<^verbatim>\<open>proxy/ui_dist\<close>, the compiler, the archive format, the remote, the output of
  \<^verbatim>\<open>git rev-parse HEAD\<close>, the output of \<^verbatim>\<open>git config --get remote.origin.url\<close> (when it
  succeeds) and the two repository variables.
\<close>

record script_env =
  x_GITHUB_TOKEN :: "string option"
  x_GH_TOKEN :: "string option"
  x_go_found :: bool
  x_npm_install :: nat
  x_npm_build :: nat
  x_ui_output :: bool
  x_go_build :: go_build
  x_archive :: archiver
  x_remote :: remote
  x_git_head :: string
  x_git_remote_url :: "string option"
  x_REPO :: "string option"
  x_GITHUB_REPOSITORY :: "string option"

record script_args =
  s_tag :: string
  s_name :: string
  s_notes :: string
  s_draft :: bool
  s_prerelease :: bool
  s_skip_upload :: bool
  s_repo :: string

text \<open>
  \<^verbatim>\<open>
  def ensure_tools() -> None:
      ... npm: only a warning ...
      r = subprocess.run(["go", "version"], ...)
      if r.returncode != 0:
          raise SystemExit("Go toolchain not found in PATH")
  \<close>
\<close>

definition ensure_tools :: "script_env \<Rightarrow> error + unit" where
  "ensure_tools X =
     (if \<not> x_go_found X then Inl (SystemExit ''Go toolchain not found in PATH'') else Inr ())"

text \<open>
  \<^verbatim>\<open>
  def build_ui() -> None:
      ui_dir = ROOT / "ui"
      if not ui_dir.exists():
          return
      if not (ui_dir / "node_modules").exists():
          run("npm install", cwd=ui_dir)
      run("npm run build", cwd=ui_dir)
      out = ROOT / "proxy" / "ui_dist"
      if not out.exists():
          raise SystemExit("UI build output missing at proxy/ui_dist")
  \<close>
  A successful \<^verbatim>\<open>npm install\<close> leaves \<^verbatim>\<open>ui/node_modules\<close>; a successful build that
  produces output leaves \<^verbatim>\<open>proxy/ui_dist\<close>.
\<close>

definition build_ui :: "script_env \<Rightarrow> fs \<Rightarrow> (error + unit) \<times> fs" where
  "build_ui X fs =
     (if \<not> path_exists fs [''ui''] then (Inr (), fs)
      else
        let r1 = (if \<not> path_exists fs [''ui'', ''node_modules''] then
                    (if x_npm_install X \<noteq> 0
                     then Inl (command_failed (x_npm_install X) ''npm install'')
                     else Inr (fs([''ui'', ''node_modules''] \<mapsto> Dir)))
                  else Inr fs)
        in attempt r1 fs (\<lambda>fs1.
             if x_npm_build X \<noteq> 0
             then (Inl (command_failed (x_npm_build X) ''npm run build''), fs1)
             else
               let fs2 = (if x_ui_output X \<and> fs1 [''proxy'', ''ui_dist''] = None
                          then fs1([''proxy'', ''ui_dist''] \<mapsto> Dir) else fs1)
               in if \<not> path_exists fs2 [''proxy'', ''ui_dist'']
                  then (Inl (SystemExit ''UI build output missing at proxy/ui_dist''), fs2)
                  else (Inr (), fs2)))"

text \<open>
  \<^verbatim>\<open>
  def get_repo_slug() -> str:
      try:
          r = subprocess.run(["git", "config", "--get", "remote.origin.url"], ...)
          if r.returncode == 0:
              url = r.stdout.strip()
              if url.startswith("git@github.com:"):
                  slug = url.split(":", 1)[1]
              elif url.startswith("https://github.com/"):
                  slug = url.split("https://github.com/", 1)[1]
              else:
                  slug = url
              if slug.endswith(".git"):
                  slug = slug[:-4]
              if slug.count("/") == 1:
                  return slug
      except Exception:
          pass
      slug = os.environ.get("REPO", os.environ.get("GITHUB_REPOSITORY", ""))
      if not slug:
          raise SystemExit("Unable to determine repo slug. ...")
      return slug
  \<close>
\<close>

definition slug_of_url :: "string \<Rightarrow> string" where
  "slug_of_url url =
     (let slug = (if str_startswith url ''git@github.com:''
                  then drop (length ''git@github.com:'') url
                  else if str_startswith url ''https://github.com/''
                  then drop (length ''https://github.com/'') url
                  else url)
      in if str_endswith slug ''.git'' then take (length slug - 4) slug else slug)"

definition get_repo_slug :: "script_env \<Rightarrow> error + string" where
  "get_repo_slug X =
     (let from_git = (case x_git_remote_url X of
                        None \<Rightarrow> None
                      | Some out \<Rightarrow>
                          let slug = slug_of_url (str_strip out)
                          in if count_list slug CHR ''/'' = 1 then Some slug else None)
      in case from_git of
           Some slug \<Rightarrow> Inr slug
         | None \<Rightarrow>
             let slug = (case x_REPO X of
                           Some r \<Rightarrow> r
                         | None \<Rightarrow> (case x_GITHUB_REPOSITORY X of Some g \<Rightarrow> g | None \<Rightarrow> []))
             in if slug = [] then Inl (SystemExit ''Unable to determine repo slug.'')
                else Inr slug)"

text \<open>
  The build loop of \<^verbatim>\<open>main\<close>:
  \<^verbatim>\<open>
  for goos, goarch in targets:
      out_dir = DIST / f"build-{goos}-{goarch}"
      bin_path = build_target(goos, goarch, out_dir)
      builds.append((goos, goarch, bin_path))
  \<close>
  and its packaging loop:
  \<^verbatim>\<open>
  for goos, goarch, bin_path in builds:
      zips.append(stage_and_zip(goos, goarch, bin_path, args.tag))
  \<close>
  An exception of \<^verbatim>\<open>build_target\<close> or \<^verbatim>\<open>stage_and_zip\<close> leaves the loop and the run.
\<close>

definition script_targets :: "(string \<times> string) list" where
  "script_targets = [(''darwin'', ''arm64''), (''windows'', ''amd64''), (''linux'', ''amd64'')]"

fun build_targets ::
  "go_build \<Rightarrow> (string \<times> string) list \<Rightarrow> (string \<times> string \<times> path) list \<Rightarrow> fs \<Rightarrow>
   (error + (string \<times> string \<times> path) list) \<times> fs" where
  "build_targets go [] builds fs = (Inr builds, fs)"
| "build_targets go ((goos, goarch) # targets) builds fs =
     (let out_dir = DIST @ [''build-'' @ goos @ ''-'' @ goarch]
      in case build_target go goos goarch out_dir fs of
           (Inl e, fs1) \<Rightarrow> (Inl e, fs1)
         | (Inr bin_path, fs1) \<Rightarrow>
             build_targets go targets (builds @ [(goos, goarch, bin_path)]) fs1)"

fun package_builds ::
  "archiver \<Rightarrow> string \<Rightarrow> (string \<times> string \<times> path) list \<Rightarrow> path list \<Rightarrow> fs \<Rightarrow>
   (error + path list) \<times> fs" where
  "package_builds archive tag [] zips fs = (Inr zips, fs)"
| "package_builds archive tag ((goos, goarch, bin_path) # builds) zips fs =
     (case stage_and_zip archive goos goarch bin_path tag fs of
        (Inl e, fs1) \<Rightarrow> (Inl e, fs1)
      | (Inr z, fs1) \<Rightarrow> package_builds archive tag builds (zips @ [z]) fs1)"

text \<open>
  The state of a run: the file system and the requests sent to the remote so far.
  A run ends with an exit status: 0 when \<^verbatim>\<open>main\<close> returns, 1 when \<^verbatim>\<open>SystemExit\<close> is
  raised with a message or another exception leaves \<^verbatim>\<open>main\<close>.
\<close>

record world =
  w_fs :: fs
  w_sent :: "request list"

text \<open>
  \<^verbatim>\<open>
  def main() -> None:
      token = os.environ.get("GITHUB_TOKEN") or os.environ.get("GH_TOKEN")
      if not args.skip_upload and not token:
          raise SystemExit("GITHUB_TOKEN (or GH_TOKEN) is required ...")
      ensure_tools()
      if DIST.exists():
          shutil.rmtree(DIST)
      DIST.mkdir(parents=True)
      build_ui()
      ... build loop, packaging loop ...
      if args.skip_upload:
          return
      repo = args.repo or get_repo_slug()
      rel = create_or_get_release(token, repo, args.tag, args.name or args.tag,
                                  args.notes, args.draft, args.prerelease)
      upload_url = rel.get("upload_url", "")
      if not upload_url:
          raise SystemExit(...)
      for z in zips:
          gh_upload_asset(token, upload_url, z)
  \<close>
  \<open>script_build\<close> is the part up to the packaging loop, \<open>script_publish\<close> the part
  after the \<^verbatim>\<open>skip_upload\<close> test.
\<close>

definition env_token :: "script_env \<Rightarrow> string" where
  "env_token X =
     (case x_GITHUB_TOKEN X of
        Some t \<Rightarrow> if t \<noteq> [] then t else (case x_GH_TOKEN X of Some u \<Rightarrow> u | None \<Rightarrow> [])
      | None \<Rightarrow> (case x_GH_TOKEN X of Some u \<Rightarrow> u | None \<Rightarrow> []))"

definition script_build :: "script_env \<Rightarrow> script_args \<Rightarrow> fs \<Rightarrow> (error + path list) \<times> fs" where
  "script_build X args fs =
     attempt (if path_exists fs DIST then rmtree fs DIST else Inr fs) fs (\<lambda>fs1.
     attempt (mkdir fs1 DIST False) fs1 (\<lambda>fs2.
     case build_ui X fs2 of
       (Inl e, fs3) \<Rightarrow> (Inl e, fs3)
     | (Inr u, fs3) \<Rightarrow>
         (case build_targets (x_go_build X) script_targets [] fs3 of
            (Inl e, fs4) \<Rightarrow> (Inl e, fs4)
          | (Inr builds, fs4) \<Rightarrow> package_builds (x_archive X) (s_tag args) builds [] fs4)))"

definition script_publish ::
  "script_env \<Rightarrow> script_args \<Rightarrow> string \<Rightarrow> path list \<Rightarrow> fs \<Rightarrow> request list \<Rightarrow>
   (error + unit) \<times> request list" where
  "script_publish X args token zips fs sent =
     (case (if s_repo args \<noteq> [] then Inr (s_repo args) else get_repo_slug X) of
        Inl e \<Rightarrow> (Inl e, sent)
      | Inr repo \<Rightarrow>
          (case create_or_get_release (x_remote X) (x_git_head X) token repo (s_tag args)
                  (if s_name args \<noteq> [] then s_name args else s_tag args)
                  (s_notes args) (s_draft args) (s_prerelease args) sent of
             (Inl e, sent1) \<Rightarrow> (Inl e, sent1)
           | (Inr rel, sent1) \<Rightarrow>
               let upload_url = (case rel ''upload_url'' of Some u \<Rightarrow> u | None \<Rightarrow> [])
               in if upload_url = []
                  then (Inl (SystemExit ''Could not get upload_url from release response''), sent1)
                  else upload_zips (x_remote X) token upload_url zips fs sent1))"

definition exit_status :: "error + 'a \<Rightarrow> nat" where
  "exit_status r = (case r of Inl e \<Rightarrow> 1 | Inr v \<Rightarrow> 0)"

definition script_main :: "script_env \<Rightarrow> script_args \<Rightarrow> world \<Rightarrow> nat \<times> world" where
  "script_main X args W =
     (let token = env_token X
      in if \<not> s_skip_upload args \<and> token = [] then (1, W)
         else
           (case ensure_tools X of
              Inl e \<Rightarrow> (1, W)
            | Inr u \<Rightarrow>
                (case script_build X args (w_fs W) of
                   (Inl e, fs1) \<Rightarrow> (1, W\<lparr>w_fs := fs1\<rparr>)
                 | (Inr zips, fs1) \<Rightarrow>
                     if s_skip_upload args then (0, W\<lparr>w_fs := fs1\<rparr>)
                     else
                       (case script_publish X args token zips fs1 (w_sent W) of
                          (r, sent1) \<Rightarrow>
                            (exit_status r, \<lparr>w_fs = fs1, w_sent = sent1\<rparr>)))))"

section \<open>release.py: building\<close>

record target =
  t_goos :: string
  t_goarch :: string
  t_filename :: string
  t_description :: string

definition BUILD_TARGETS :: "target list" where
  "BUILD_TARGETS =
     [\<lparr>t_goos = ''linux'', t_goarch = ''amd64'', t_filename = ''claracore-linux-amd64'',
        t_description = ''Linux x64''\<rparr>,
      \<lparr>t_goos = ''linux'', t_goarch = ''arm64'', t_filename = ''claracore-linux-arm64'',
        t_description = ''Linux ARM64''\<rparr>,
      \<lparr>t_goos = ''darwin'', t_goarch = ''amd64'', t_filename = ''claracore-darwin-amd64'',
        t_description = ''macOS Intel''\<rparr>,
      \<lparr>t_goos = ''darwin'', t_goarch = ''arm64'', t_filename = ''claracore-darwin-arm64'',
        t_description = ''macOS Apple Silicon''\<rparr>,
      \<lparr>t_goos = ''windows'', t_goarch = ''amd64'', t_filename = ''claracore-windows-amd64.exe'',
        t_description = ''Windows x64''\<rparr>]"

definition BUILD_DIR :: path where
  "BUILD_DIR = [''dist'']"

definition REPO_SLUG :: string where
  "REPO_SLUG = ''claraverse-space/ClaraCore''"

record binary_info =
  b_target :: target
  b_path :: path
  b_size :: string
  b_sha256 :: string

text \<open>
  What a run of \<^verbatim>\<open>release.py\<close> reads from outside: whether the host is Windows, the
  resource compiler (\<open>None\<close> when \<^verbatim>\<open>windres\<close> is missing or fails), the Go compiler,
  the signer (\<open>None\<close> when no certificate or no \<^verbatim>\<open>signtool\<close> is found or signing fails),
  the build time, the commit, the formatting of a file size (\<^verbatim>\<open>get_file_size\<close> formats
  a float), the hash object, the release notes generator, the remote, and which of
  \<^verbatim>\<open>go version\<close> and \<^verbatim>\<open>git --version\<close> succeed.
\<close>

record 'h release_env =
  e_win32 :: bool
  e_windres :: "bytes \<Rightarrow> bytes option"
  e_go_build :: go_build
  e_signer :: "bytes \<Rightarrow> bytes option"
  e_build_time :: string
  e_git_commit :: string
  e_file_size :: "nat \<Rightarrow> string"
  e_hashlib :: "'h hashlib"
  e_notes :: "string \<Rightarrow> binary_info list \<Rightarrow> string"
  e_remote :: remote
  e_go_found :: bool
  e_git_found :: bool

text \<open>
  \<^verbatim>\<open>sign_windows_binary(binary_path)\<close> returns \<^verbatim>\<open>True\<close> on every path; it changes the
  file only when signing succeeds.
\<close>

definition sign_windows_binary :: "'h release_env \<Rightarrow> path \<Rightarrow> fs \<Rightarrow> fs" where
  "sign_windows_binary E binary_path fs =
     (if \<not> str_endswith (path_name binary_path) ''.exe'' then fs
      else (case fs binary_path of
              Some (File b) \<Rightarrow>
                (case e_signer E b of None \<Rightarrow> fs | Some b' \<Rightarrow> fs(binary_path \<mapsto> File b'))
            | _ \<Rightarrow> fs))"

text \<open>
  \<^verbatim>\<open>compile_windows_resources()\<close> returns \<^verbatim>\<open>True\<close> on every path; on a Windows host
  with \<^verbatim>\<open>claracore.rc\<close> present and a working \<^verbatim>\<open>windres\<close> it writes
  \<^verbatim>\<open>claracore_windows.syso\<close>.
\<close>

definition compile_windows_resources :: "'h release_env \<Rightarrow> fs \<Rightarrow> fs" where
  "compile_windows_resources E fs =
     (if \<not> e_win32 E then fs
      else (case fs [''claracore.rc''] of
              Some (File rc) \<Rightarrow>
                (case e_windres E rc of
                   None \<Rightarrow> fs
                 | Some obj \<Rightarrow> fs([''claracore_windows.syso''] \<mapsto> File obj))
            | _ \<Rightarrow> fs))"

text \<open>
  The body of the \<^verbatim>\<open>for target in BUILD_TARGETS\<close> loop of \<^verbatim>\<open>build_binaries\<close>:
  \<^verbatim>\<open>
  output_path = build_path / target["filename"]
  env = {"GOOS": target["goos"], "GOARCH": target["goarch"]}
  if target["goos"] == "windows":
      env["CGO_ENABLED"] = "1" if sys.platform == "win32" else "0"
      ldflags = ldflags_common.copy()
  else:
      env["CGO_ENABLED"] = "0"
      ldflags = ldflags_common + ["-w", "-s"]
  cmd = ["go", "build", "-trimpath",
         "-buildmode=exe" if target["goos"] == "windows" else "-buildmode=default",
         "-ldflags", " ".join(ldflags), "-o", str(output_path), "."]
  success, output = run_command(cmd, env=env)
  if not success:
      continue
  if not output_path.exists():
      continue
  if target["goos"] == "windows":
      sign_windows_binary(output_path)
  file_size = get_file_size(output_path)
  sha256 = calculate_sha256(output_path)
  built_binaries.append({"target": target, "path": output_path,
                         "size": file_size, "sha256": sha256})
  \<close>
  \<open>build_one\<close> returns \<open>None\<close> where the loop says \<^verbatim>\<open>continue\<close>.
\<close>

definition join_spaces :: "string list \<Rightarrow> string" where
  "join_spaces ws = (case ws of [] \<Rightarrow> [] | w # rest \<Rightarrow> foldl (\<lambda>acc x. acc @ '' '' @ x) w rest)"

definition build_cmd :: "'h release_env \<Rightarrow> string \<Rightarrow> target \<Rightarrow> path \<Rightarrow> string list" where
  "build_cmd E version tgt output_path =
     (let ldflags_common = [''-X main.version='' @ version,
                            ''-X main.date='' @ e_build_time E,
                            ''-X main.commit='' @ e_git_commit E];
          ldflags = (if t_goos tgt = ''windows'' then ldflags_common
                     else ldflags_common @ [''-w'', ''-s''])
      in [''go'', ''build'', ''-trimpath'',
          (if t_goos tgt = ''windows'' then ''-buildmode=exe'' else ''-buildmode=default''),
          ''-ldflags'', join_spaces ldflags, ''-o'', path_str output_path, ''.''])"

definition build_env :: "'h release_env \<Rightarrow> target \<Rightarrow> (string \<Rightarrow> string option)" where
  "build_env E tgt =
     [''GOOS'' \<mapsto> t_goos tgt, ''GOARCH'' \<mapsto> t_goarch tgt,
      ''CGO_ENABLED'' \<mapsto> (if t_goos tgt = ''windows'' \<and> e_win32 E then ''1'' else ''0'')]"

definition file_size :: "fs \<Rightarrow> path \<Rightarrow> nat" where
  "file_size fs p = (case fs p of Some (File d) \<Rightarrow> length d | _ \<Rightarrow> 0)"

definition build_one ::
  "'h release_env \<Rightarrow> string \<Rightarrow> path \<Rightarrow> target \<Rightarrow> fs \<Rightarrow> (error + binary_info option) \<times> fs" where
  "build_one E version build_path tgt fs =
     (let output_path = build_path @ [t_filename tgt]
      in case go_run (e_go_build E) (build_cmd E version tgt output_path) (build_env E tgt)
                output_path fs of
           (rc, fs1) \<Rightarrow>
             if rc \<noteq> 0 then (Inr None, fs1)
             else if \<not> path_exists fs1 output_path then (Inr None, fs1)
             else
               let fs2 = (if t_goos tgt = ''windows''
                          then sign_windows_binary E output_path fs1 else fs1)
               in (case calculate_sha256 (e_hashlib E) fs2 output_path of
                     Inl e \<Rightarrow> (Inl e, fs2)
                   | Inr sha256 \<Rightarrow>
                       (Inr (Some \<lparr>b_target = tgt, b_path = output_path,
                                   b_size = e_file_size E (file_size fs2 output_path),
                                   b_sha256 = sha256\<rparr>), fs2)))"

fun build_loop ::
  "'h release_env \<Rightarrow> string \<Rightarrow> path \<Rightarrow> target list \<Rightarrow> binary_info list \<Rightarrow> fs \<Rightarrow>
   (error + binary_info list) \<times> fs" where
  "build_loop E version build_path [] built_binaries fs = (Inr built_binaries, fs)"
| "build_loop E version build_path (tgt # targets) built_binaries fs =
     (case build_one E version build_path tgt fs of
        (Inl e, fs1) \<Rightarrow> (Inl e, fs1)
      | (Inr None, fs1) \<Rightarrow> build_loop E version build_path targets built_binaries fs1
      | (Inr (Some binary_info), fs1) \<Rightarrow>
          build_loop E version build_path targets (built_binaries @ [binary_info]) fs1)"

text \<open>
  \<^verbatim>\<open>
  def build_binaries(version: str) -> List[Dict]:
      compile_windows_resources()
      build_path = Path(BUILD_DIR)
      if build_path.exists():
          shutil.rmtree(build_path)
      build_path.mkdir(parents=True, exist_ok=True)
      ...
      for target in BUILD_TARGETS: ...
      syso_file = Path("claracore_windows.syso")
      if syso_file.exists():
          syso_file.unlink()
      return built_binaries
  \<close>
  The list of targets is a parameter; \<^verbatim>\<open>main\<close> passes \<open>BUILD_TARGETS\<close>.
\<close>

definition build_binaries ::
  "'h release_env \<Rightarrow> target list \<Rightarrow> string \<Rightarrow> fs \<Rightarrow> (error + binary_info list) \<times> fs" where
  "build_binaries E targets version fs =
     (let fs0 = compile_windows_resources E fs;
          build_path = BUILD_DIR
      in attempt (if path_exists fs0 build_path then rmtree fs0 build_path else Inr fs0) fs0
           (\<lambda>fs1.
         attempt (mkdir fs1 build_path True) fs1 (\<lambda>fs2.
         case build_loop E version build_path targets [] fs2 of
           (Inl e, fs3) \<Rightarrow> (Inl e, fs3)
         | (Inr built_binaries, fs3) \<Rightarrow>
             attempt (if path_exists fs3 [''claracore_windows.syso'']
                      then unlink fs3 [''claracore_windows.syso''] else Inr fs3) fs3
               (\<lambda>fs4. (Inr built_binaries, fs4)))))"

section \<open>release.py: publishing\<close>

text \<open>The \<^verbatim>\<open>prerelease\<close> argument of \<^verbatim>\<open>create_git_release\<close>:
  \<^verbatim>\<open>version.find("alpha") != -1 or version.find("beta") != -1 or version.find("rc") != -1\<close>.\<close>

definition version_prerelease :: "string \<Rightarrow> bool" where
  "version_prerelease version =
     (str_find version ''alpha'' \<noteq> - 1 \<or> str_find version ''beta'' \<noteq> - 1 \<or>
      str_find version ''rc'' \<noteq> - 1)"

text \<open>\<^verbatim>\<open>release.upload_asset(path=..., name=..., content_type=...)\<close>: the file at \<open>path\<close> is
  read and posted to the upload URL of the release.\<close>

definition upload_asset ::
  "remote \<Rightarrow> string \<Rightarrow> json \<Rightarrow> path \<Rightarrow> string \<Rightarrow> string \<Rightarrow> fs \<Rightarrow> request list \<Rightarrow>
   (error + unit) \<times> request list" where
  "upload_asset R token release p asset_name content_type fs sent =
     (case read_bytes fs p of
        Inl e \<Rightarrow> (Inl e, sent)
      | Inr data \<Rightarrow>
          (case urlopen R
                  (UploadAsset token (case release ''upload_url'' of Some u \<Rightarrow> u | None \<Rightarrow> [])
                     asset_name content_type data)
                  sent of
             (Inl e, sent1) \<Rightarrow> (Inl e, sent1)
           | (Inr asset, sent1) \<Rightarrow> (Inr (), sent1)))"

text \<open>
  \<^verbatim>\<open>
  for binary in binaries:
      filename = binary["target"]["filename"]
      filepath = binary["path"]
      with open(filepath, "rb") as f:
          asset = release.upload_asset(path=str(filepath), name=filename,
                                       content_type="application/octet-stream")
  \<close>
\<close>

fun upload_binaries ::
  "remote \<Rightarrow> string \<Rightarrow> json \<Rightarrow> binary_info list \<Rightarrow> fs \<Rightarrow> request list \<Rightarrow>
   (error + unit) \<times> request list" where
  "upload_binaries R token release [] fs sent = (Inr (), sent)"
| "upload_binaries R token release (binary # binaries) fs sent =
     (case upload_asset R token release (b_path binary) (t_filename (b_target binary))
             ''application/octet-stream'' fs sent of
        (Inl e, sent1) \<Rightarrow> (Inl e, sent1)
      | (Inr u, sent1) \<Rightarrow> upload_binaries R token release binaries fs sent1)"

text \<open>
  \<^verbatim>\<open>
  checksums_content = f"# SHA256 Checksums for ClaraCore {version}\n\n"
  for binary in binaries:
      checksums_content += f"{binary['sha256']}  {binary['target']['filename']}\n"
  \<close>
\<close>

definition checksums_content :: "string \<Rightarrow> binary_info list \<Rightarrow> string" where
  "checksums_content version binaries =
     foldl (\<lambda>acc binary. acc @ b_sha256 binary @ ''  '' @ t_filename (b_target binary) @ [CHR 0x0A])
       (''# SHA256 Checksums for ClaraCore '' @ version @ [CHR 0x0A, CHR 0x0A])
       binaries"

text \<open>
  The reminder after the uploads: \<^verbatim>\<open>submit_to_microsoft_defender\<close> is called for the
  first Windows binary and hashes its file again.
\<close>

definition defender_reminder :: "'h release_env \<Rightarrow> binary_info list \<Rightarrow> fs \<Rightarrow> error + unit" where
  "defender_reminder E binaries fs =
     (case filter (\<lambda>b. t_goos (b_target b) = ''windows'') binaries of
        [] \<Rightarrow> Inr ()
      | b # rest \<Rightarrow>
          (case calculate_sha256 (e_hashlib E) fs (b_path b) of
             Inl e \<Rightarrow> Inl e
           | Inr h \<Rightarrow> Inr ()))"

text \<open>
  \<^verbatim>\<open>
  def create_github_release(token, version, binaries, draft=False) -> bool:
      try:
          g = Github(token)
          repo = g.get_repo(f"{REPO_OWNER}/{REPO_NAME}")
          release_notes = generate_release_notes(version, binaries)
          release = repo.create_git_release(tag=version, name=f"ClaraCore {version}",
              message=release_notes, draft=draft, prerelease=...)
          for binary in binaries: ... upload ...
          ... checksums_content ...
          checksums_path = Path(BUILD_DIR) / "checksums.txt"
          checksums_path.write_text(checksums_content)
          with open(checksums_path, "rb") as f:
              release.upload_asset(path=str(checksums_path), name="checksums.txt",
                                   content_type="text/plain")
          ... reminder ...
          return True
      except Exception as e:
          return False
  \<close>
  \<open>release_steps\<close> is the body of the \<^verbatim>\<open>try\<close>.
\<close>

definition release_steps ::
  "'h release_env \<Rightarrow> string \<Rightarrow> string \<Rightarrow> binary_info list \<Rightarrow> bool \<Rightarrow> world \<Rightarrow>
   (error + unit) \<times> world" where
  "release_steps E token version binaries draft W =
     (let R = e_remote E; fs = w_fs W
      in case urlopen R (GetRepo token REPO_SLUG) (w_sent W) of
           (Inl e, s1) \<Rightarrow> (Inl e, W\<lparr>w_sent := s1\<rparr>)
         | (Inr repo, s1) \<Rightarrow>
             let release_notes = e_notes E version binaries;
                 payload = \<lparr>p_tag_name = version,
                            p_name = ''ClaraCore '' @ version,
                            p_body = release_notes,
                            p_draft = draft,
                            p_prerelease = version_prerelease version,
                            p_target_commitish = None\<rparr>
             in (case urlopen R (CreateRelease token REPO_SLUG payload) s1 of
                   (Inl e, s2) \<Rightarrow> (Inl e, W\<lparr>w_sent := s2\<rparr>)
                 | (Inr release, s2) \<Rightarrow>
                     (case upload_binaries R token release binaries fs s2 of
                        (Inl e, s3) \<Rightarrow> (Inl e, W\<lparr>w_sent := s3\<rparr>)
                      | (Inr u, s3) \<Rightarrow>
                          let checksums_path = BUILD_DIR @ [''checksums.txt'']
                          in (case write_text fs checksums_path
                                     (checksums_content version binaries) of
                                Inl e \<Rightarrow> (Inl e, W\<lparr>w_sent := s3\<rparr>)
                              | Inr fs1 \<Rightarrow>
                                  (case upload_asset R token release checksums_path
                                          ''checksums.txt'' ''text/plain'' fs1 s3 of
                                     (Inl e, s4) \<Rightarrow> (Inl e, \<lparr>w_fs = fs1, w_sent = s4\<rparr>)
                                   | (Inr u, s4) \<Rightarrow>
                                       (defender_reminder E binaries fs1,
                                        \<lparr>w_fs = fs1, w_sent = s4\<rparr>))))))"

definition create_github_release ::
  "'h release_env \<Rightarrow> string \<Rightarrow> string \<Rightarrow> binary_info list \<Rightarrow> bool \<Rightarrow> world \<Rightarrow> bool \<times> world" where
  "create_github_release E token version binaries draft W =
     (case release_steps E token version binaries draft W of
        (Inl e, W1) \<Rightarrow> (False, W1)
      | (Inr u, W1) \<Rightarrow> (True, W1))"

section \<open>release.py: the run\<close>

text \<open>The command line: \<^verbatim>\<open>--token\<close> and \<^verbatim>\<open>--token-file\<close> are mutually exclusive and one
  of them is required.\<close>

datatype token_arg = Token string | TokenFile path

record release_args =
  a_version :: string
  a_token :: token_arg
  a_draft :: bool
  a_build_only :: bool

text \<open>\<^verbatim>\<open>check_prerequisites()\<close>: \<^verbatim>\<open>go version\<close>, \<^verbatim>\<open>git --version\<close>, \<^verbatim>\<open>.git\<close> and
  \<^verbatim>\<open>go.mod\<close>, in this order, each a \<^verbatim>\<open>return False\<close> when it fails.\<close>

definition check_prerequisites :: "'h release_env \<Rightarrow> fs \<Rightarrow> bool" where
  "check_prerequisites E fs =
     (if \<not> e_go_found E then False
      else if \<not> e_git_found E then False
      else if \<not> path_exists fs [''.git''] then False
      else if \<not> path_exists fs [''go.mod''] then False
      else True)"

text \<open>
  \<^verbatim>\<open>
  if args.token:
      github_token = args.token
  else:
      token_file = Path(args.token_file)
      if not token_file.exists():
          sys.exit(1)
      github_token = token_file.read_text().strip()
  \<close>
  An empty \<^verbatim>\<open>--token\<close> is false, and \<^verbatim>\<open>Path(None)\<close> raises.
\<close>

definition github_token :: "token_arg \<Rightarrow> fs \<Rightarrow> error + string" where
  "github_token a fs =
     (case a of
        Token t \<Rightarrow> if t \<noteq> [] then Inr t else Inl (TypeError ''Path(None)'')
      | TokenFile p \<Rightarrow>
          if \<not> path_exists fs p then Inl (SystemExit ''Token file not found'')
          else (case read_bytes fs p of Inl e \<Rightarrow> Inl e | Inr s \<Rightarrow> Inr (str_strip s)))"

text \<open>
  \<^verbatim>\<open>
  def main():
      if not validate_version(args.version): sys.exit(1)
      if not check_prerequisites(): sys.exit(1)
      ... github_token ...
      try:
          binaries = build_binaries(args.version)
          if not binaries:
              sys.exit(1)
          if args.build_only:
              return
          success = create_github_release(github_token, args.version, binaries, args.draft)
          if success: ...
          else:
              sys.exit(1)
      except KeyboardInterrupt: sys.exit(1)
      except Exception as e: sys.exit(1)
  \<close>
  \<open>release_run\<close> is \<^verbatim>\<open>main\<close> with the list of targets as a parameter; the result is the
  exit status and the state the run leaves.
\<close>

definition release_run ::
  "'h release_env \<Rightarrow> target list \<Rightarrow> release_args \<Rightarrow> world \<Rightarrow> nat \<times> world" where
  "release_run E targets args W =
     (if \<not> validate_version (a_version args) then (1, W)
      else if \<not> check_prerequisites E (w_fs W) then (1, W)
      else
        (case github_token (a_token args) (w_fs W) of
           Inl e \<Rightarrow> (1, W)
         | Inr token \<Rightarrow>
             (case build_binaries E targets (a_version args) (w_fs W) of
                (Inl e, fs1) \<Rightarrow> (1, W\<lparr>w_fs := fs1\<rparr>)
              | (Inr binaries, fs1) \<Rightarrow>
                  if binaries = [] then (1, W\<lparr>w_fs := fs1\<rparr>)
                  else if a_build_only args then (0, W\<lparr>w_fs := fs1\<rparr>)
                  else
                    (case create_github_release E token (a_version args) binaries
                            (a_draft args) (W\<lparr>w_fs := fs1\<rparr>) of
                       (success, W1) \<Rightarrow> (if success then 0 else 1, W1)))))"

definition release_main :: "'h release_env \<Rightarrow> release_args \<Rightarrow> world \<Rightarrow> nat \<times> world" where
  "release_main E args W = release_run E BUILD_TARGETS args W"

section \<open>Reading the requests of a run\<close>

text \<open>The payloads of the create requests in a list of requests, and the requests a
  step added to those sent before.\<close>

fun created_payloads :: "request list \<Rightarrow> release_payload list" where
  "created_payloads [] = []"
| "created_payloads (CreateRelease token repo payload # reqs) = payload # created_payloads reqs"
| "created_payloads (req # reqs) = created_payloads reqs"

definition new_requests :: "request list \<Rightarrow> request list \<Rightarrow> request list" where
  "new_requests sent sent' = drop (length sent) sent'"

text \<open>Whether an exception is an \<^verbatim>\<open>HTTPError\<close> (the remote answered with a status).\<close>

definition is_http_error :: "error \<Rightarrow> bool" where
  "is_http_error e = (case e of HTTPError code msg \<Rightarrow> True | _ \<Rightarrow> False)"

text \<open>The payload \<open>create_or_get_release\<close> posts.\<close>

definition create_payload :: "string \<Rightarrow> string \<Rightarrow> string \<Rightarrow> string \<Rightarrow> bool \<Rightarrow> bool \<Rightarrow> release_payload" where
  "create_payload git_stdout tag name notes draft prerelease =
     \<lparr>p_tag_name = tag, p_name = (if name = [] then tag else name), p_body = notes,
      p_draft = draft, p_prerelease = prerelease,
      p_target_commitish =
        Some (if str_strip git_stdout = [] then ''main'' else str_strip git_stdout)\<rparr>"

text \<open>The request \<open>gh_upload_asset\<close> sends for an archive, and the exception it
  raises for an exception of the request.\<close>

definition zip_request :: "string \<Rightarrow> string \<Rightarrow> fs \<Rightarrow> path \<Rightarrow> request" where
  "zip_request token upload_url fs z =
     UploadAsset token (takeWhile (\<lambda>c. c \<noteq> CHR ''{'') upload_url) (path_name z)
       ''application/zip'' (case fs z of Some (File d) \<Rightarrow> d | _ \<Rightarrow> [])"

definition surfaced :: "error \<Rightarrow> error" where
  "surfaced e = (case e of HTTPError code msg \<Rightarrow> upload_failed code msg | _ \<Rightarrow> e)"

section \<open>Describing the packager's result\<close>






section \<open>Describing the publisher's requests\<close>

text \<open>
  The manifest as the specification words it: one line per artifact, the digest, two
  spaces, the file name, and nothing else.
\<close>

definition manifest_line :: "binary_info \<Rightarrow> string" where
  "manifest_line binary = b_sha256 binary @ ''  '' @ t_filename (b_target binary) @ [CHR 0x0A]"

definition spec_manifest :: "binary_info list \<Rightarrow> string" where
  "spec_manifest binaries = concat (map manifest_line binaries)"

text \<open>The payload \<open>create_github_release\<close> passes to \<^verbatim>\<open>create_git_release\<close>, and its request
  for the manifest.\<close>

definition release_payload_of :: "'h release_env \<Rightarrow> string \<Rightarrow> binary_info list \<Rightarrow> bool \<Rightarrow> release_payload" where
  "release_payload_of E version binaries draft =
     \<lparr>p_tag_name = version, p_name = ''ClaraCore '' @ version,
      p_body = e_notes E version binaries, p_draft = draft,
      p_prerelease = version_prerelease version, p_target_commitish = None\<rparr>"

definition manifest_request :: "string \<Rightarrow> json \<Rightarrow> string \<Rightarrow> binary_info list \<Rightarrow> request" where
  "manifest_request token release version binaries =
     UploadAsset token (case release ''upload_url'' of Some u \<Rightarrow> u | None \<Rightarrow> [])
       ''checksums.txt'' ''text/plain'' (checksums_content version binaries)"

section \<open>Describing the build loops\<close>

text \<open>Whether the compiler builds a target of \<^verbatim>\<open>release.py\<close> into \<open>build_path\<close>.\<close>

definition compiles :: "'h release_env \<Rightarrow> string \<Rightarrow> path \<Rightarrow> target \<Rightarrow> bool" where
  "compiles E version build_path tgt =
     (case e_go_build E (build_cmd E version tgt (build_path @ [t_filename tgt]))
             (build_env E tgt) of
        Binary b \<Rightarrow> True
      | _ \<Rightarrow> False)"

text \<open>
  A project directory \<^verbatim>\<open>release.py\<close> can build in: \<^verbatim>\<open>dist\<close> is a directory, or nothing
  exists at or below it; and \<^verbatim>\<open>claracore_windows.syso\<close> is not a directory.
\<close>

definition clean_project :: "fs \<Rightarrow> bool" where
  "clean_project fs \<longleftrightarrow>
     (fs BUILD_DIR = Some Dir \<or> (\<forall>q. prefix BUILD_DIR q \<longrightarrow> fs q = None)) \<and>
     fs [''claracore_windows.syso''] \<noteq> Some Dir"

text \<open>The output directory and the binary of a target of \<^verbatim>\<open>scripts/release.py\<close>, and
  whether the compiler builds it.\<close>

definition script_out_dir :: "string \<times> string \<Rightarrow> path" where
  "script_out_dir t = DIST @ [''build-'' @ fst t @ ''-'' @ snd t]"

definition script_out_path :: "string \<times> string \<Rightarrow> path" where
  "script_out_path t =
     script_out_dir t @ [if fst t = ''windows'' then ''claracore.exe'' else ''claracore'']"

definition script_compiles :: "go_build \<Rightarrow> string \<times> string \<Rightarrow> bool" where
  "script_compiles go t =
     (case go [''go build -o '' @ path_str (script_out_path t) @ '' .'']
             [''GOOS'' \<mapsto> fst t, ''GOARCH'' \<mapsto> snd t, ''CGO_ENABLED'' \<mapsto> ''0''] of
        Binary b \<Rightarrow> True
      | _ \<Rightarrow> False)"

text \<open>The request \<open>upload_binaries\<close> sends for a binary.\<close>

definition binary_request :: "string \<Rightarrow> json \<Rightarrow> fs \<Rightarrow> binary_info \<Rightarrow> request" where
  "binary_request token release fs binary =
     UploadAsset token (case release ''upload_url'' of Some u \<Rightarrow> u | None \<Rightarrow> [])
       (t_filename (b_target binary)) ''application/octet-stream''
       (case fs (b_path binary) of Some (File d) \<Rightarrow> d | _ \<Rightarrow> [])"

section \<open>Example remotes\<close>

text \<open>
  Remotes for concrete runs: one that rejects the credentials of every request, one
  that cannot be reached, one that holds a release for every tag, and one that holds
  no release and accepts every other request.
\<close>

definition remote_unauthorized :: remote where
  "remote_unauthorized sent req = Inl (HTTPError 401 ''Bad credentials'')"

definition remote_unreachable :: remote where
  "remote_unreachable sent req = Inl (URLError ''Network is unreachable'')"

definition example_release :: json where
  "example_release = [''upload_url'' \<mapsto> ''https://uploads.example/assets{?name,label}'']"

definition remote_has_release :: remote where
  "remote_has_release sent req = Inr example_release"

definition remote_no_release :: remote where
  "remote_no_release sent req =
     (case req of
        GetReleaseByTag token repo tag \<Rightarrow> Inl (HTTPError 404 ''Not Found'')
      | _ \<Rightarrow> Inr example_release)"

text \<open>A remote that holds no release, and answers the upload of the asset \<open>asset\<close>
  with a conflict (status 422) and accepts every other request.\<close>

definition remote_conflict :: "string \<Rightarrow> remote" where
  "remote_conflict asset sent req =
     (case req of
        GetReleaseByTag token repo tag \<Rightarrow> Inl (HTTPError 404 ''Not Found'')
      | UploadAsset token url name ct data \<Rightarrow>
          if name = asset then Inl (HTTPError 422 ''already_exists'') else Inr example_release
      | _ \<Rightarrow> Inr example_release)"

section \<open>Example runs\<close>

text \<open>A compiler that builds every target, and one that fails on Windows targets.\<close>

definition go_all :: go_build where
  "go_all cmd env = Binary ''ELF''"

definition go_no_windows :: go_build where
  "go_no_windows cmd env = (if env ''GOOS'' = Some ''windows'' then CompileError 2 else Binary ''ELF'')"

text \<open>A run of \<^verbatim>\<open>scripts/release.py --tag v1 --repo o/r\<close> in an empty project directory,
  against a release that already holds the Windows archive.\<close>

definition example_script_env :: script_env where
  "example_script_env =
     \<lparr>x_GITHUB_TOKEN = Some ''tok'', x_GH_TOKEN = None, x_go_found = True,
      x_npm_install = 0, x_npm_build = 0, x_ui_output = True,
      x_go_build = go_all, x_archive = (\<lambda>t. ''PK''),
      x_remote = remote_conflict ''claracore-v1-windows-amd64.zip'',
      x_git_head = ''0a1b2c3'', x_git_remote_url = None, x_REPO = None,
      x_GITHUB_REPOSITORY = None\<rparr>"

definition example_script_args :: script_args where
  "example_script_args =
     \<lparr>s_tag = ''v1'', s_name = [], s_notes = [], s_draft = False, s_prerelease = False,
      s_skip_upload = False, s_repo = ''o/r''\<rparr>"

definition empty_fs :: fs where
  "empty_fs = (\<lambda>p. None)"



text \<open>A run of \<^verbatim>\<open>release.py\<close> on a Linux host without certificate, with a compiler that
  fails on Windows targets, and a remote that accepts everything; one built binary;
  and the project directory after building it.\<close>

definition example_release_env :: "nat release_env" where
  "example_release_env =
     \<lparr>e_win32 = False, e_windres = (\<lambda>rc. None), e_go_build = go_no_windows,
      e_signer = (\<lambda>b. None), e_build_time = ''2025-01-01T00:00:00Z'',
      e_git_commit = ''0a1b2c3'', e_file_size = (\<lambda>n. str_of_nat n @ ''.0 B''),
      e_hashlib = byte_sum_hash, e_notes = (\<lambda>version binaries. ''ClaraCore '' @ version),
      e_remote = remote_no_release, e_go_found = True, e_git_found = True\<rparr>"

definition built_fs :: fs where
  "built_fs = [[''dist''] \<mapsto> Dir, [''dist'', ''claracore-linux-amd64''] \<mapsto> File ''ELF'']"

definition example_binary :: binary_info where
  "example_binary =
     \<lparr>b_target = \<lparr>t_goos = ''linux'', t_goarch = ''amd64'', t_filename = ''claracore-linux-amd64'',
        t_description = ''Linux x64''\<rparr>,
      b_path = [''dist'', ''claracore-linux-amd64''], b_size = ''3.0 B'', b_sha256 = ''6688''\<rparr>"

text \<open>A compiler that builds Linux targets only; the arguments of a run of
  \<^verbatim>\<open>release.py --version v1.0.0 --token tok\<close>; and a project directory with \<^verbatim>\<open>.git\<close> and
  \<^verbatim>\<open>go.mod\<close>.\<close>

definition go_only_linux :: go_build where
  "go_only_linux cmd env = (if env ''GOOS'' = Some ''linux'' then Binary ''ELF'' else CompileError 2)"

definition example_release_args :: release_args where
  "example_release_args =
     \<lparr>a_version = ''v1.0.0'', a_token = Token ''tok'', a_draft = False, a_build_only = False\<rparr>"

definition project_fs :: fs where
  "project_fs = [[''.git''] \<mapsto> Dir, [''go.mod''] \<mapsto> File ''module claracore'']"

text \<open>Two targets of \<open>BUILD_TARGETS\<close>, and the example environment with a remote that
  accepts every request.\<close>

definition target_linux :: target where
  "target_linux = \<lparr>t_goos = ''linux'', t_goarch = ''amd64'',
     t_filename = ''claracore-linux-amd64'', t_description = ''Linux x64''\<rparr>"

definition target_windows :: target where
  "target_windows = \<lparr>t_goos = ''windows'', t_goarch = ''amd64'',
     t_filename = ''claracore-windows-amd64.exe'', t_description = ''Windows x64''\<rparr>"

definition accepting_env :: "nat release_env" where
  "accepting_env = example_release_env\<lparr>e_remote := remote_has_release\<rparr>"

section \<open>Properties of the string operations\<close>

lemma split_scan_length: "length (split_scan sep cur s) = Suc (count_list s sep)"
  by (induction s arbitrary: cur) simp_all

lemma split_length: "length (str_split s sep) = Suc (count_list s sep)"
  by (simp add: str_split_def split_scan_length)

lemma count_list_pos_iff: "0 < count_list s c \<longleftrightarrow> c \<in> set s"
  by (induction s) auto

lemma split_two_parts_iff: "2 \<le> length (str_split s sep) \<longleftrightarrow> sep \<in> set s"
  using count_list_pos_iff [of s sep] by (simp add: split_length Suc_le_eq)

lemma startswith_v_iff: "str_startswith s ''v'' \<longleftrightarrow> (\<exists>r. s = CHR ''v'' # r)"
  by (cases s) (simp_all add: str_startswith_def)

lemma validate_version_iff:
  "validate_version s \<longleftrightarrow> (\<exists>r. s = CHR ''v'' # r \<and> CHR ''.'' \<in> set r)"
proof (cases "str_startswith s ''v''")
  case False
  then show ?thesis
    by (auto simp: validate_version_def startswith_v_iff)
next
  case True
  then obtain r where s: "s = CHR ''v'' # r"
    by (auto simp: startswith_v_iff)
  have "validate_version s \<longleftrightarrow> 2 \<le> length (str_split r CHR ''.'')"
    using True by (simp add: validate_version_def s Let_def not_less)
  then show ?thesis
    by (simp add: s split_two_parts_iff)
qed

section \<open>The version validator\<close>

lemma validate_version_parts:
  "validate_version s \<longleftrightarrow>
     str_startswith s ''v'' \<and> 2 \<le> length (str_split (drop 1 s) CHR ''.'')"
  by (simp add: validate_version_def Let_def not_less)

lemma spec_tag_valid_accepted: "spec_tag_valid s \<Longrightarrow> validate_version s"
  by (cases s) (simp_all add: spec_tag_valid_def validate_version_iff split_two_parts_iff)

text \<open>
  C7, as stated, fails: the validator accepts \<open>v.\<close>, whose two components are
  empty and so neither numeric nor identifiers.
\<close>

theorem validate_version_not_exactly_spec:
  "validate_version ''v.'' \<and> \<not> spec_tag_valid ''v.''"
  by (simp add: validate_version_def spec_tag_valid_def str_startswith_def str_split_def
      is_numeric_def is_identifier_def)

text \<open>
  C7, amended: the validator accepts exactly the strings that begin with the prefix
  character \<open>v\<close> and whose remainder splits at dots into at least two components,
  whatever the components contain. It accepts \<open>v1.2.3\<close> and \<open>v0.1\<close> and rejects
  \<open>1.2.3\<close> (no prefix) and \<open>vX\<close> (one component).
\<close>

theorem validate_version_accepts_exactly:
  "(validate_version s \<longleftrightarrow>
      (\<exists>r. s = CHR ''v'' # r \<and> 2 \<le> length (str_split r CHR ''.'')))
   \<and> validate_version ''v1.2.3'' \<and> validate_version ''v0.1''
   \<and> \<not> validate_version ''1.2.3'' \<and> \<not> validate_version ''vX''"
proof -
  have "validate_version s \<longleftrightarrow>
      (\<exists>r. s = CHR ''v'' # r \<and> 2 \<le> length (str_split r CHR ''.''))"
    by (simp add: validate_version_iff split_two_parts_iff)
  moreover have "validate_version ''v1.2.3''" "validate_version ''v0.1''"
    "\<not> validate_version ''1.2.3''" "\<not> validate_version ''vX''"
    by (simp_all add: validate_version_iff)
  ultimately show ?thesis by blast
qed

text \<open>
  C10: acceptance depends only on the prefix and on the number of dot-separated
  parts. Every string that starts with \<open>v\<close> and has a dot in its remainder is
  accepted; two remainders with the same number of parts are treated alike; and
  \<open>v.\<close>, \<open>v1.\<close> and \<open>va.b\<close> are accepted.
\<close>

theorem validate_version_ignores_content:
  "(CHR ''.'' \<in> set r \<longrightarrow> validate_version (CHR ''v'' # r))
   \<and> (length (str_split r CHR ''.'') = length (str_split r' CHR ''.'') \<longrightarrow>
        validate_version (CHR ''v'' # r) = validate_version (CHR ''v'' # r'))
   \<and> validate_version ''v.'' \<and> validate_version ''v1.'' \<and> validate_version ''va.b''"
proof -
  have "CHR ''.'' \<in> set r \<longrightarrow> validate_version (CHR ''v'' # r)"
    by (simp add: validate_version_iff)
  moreover have "length (str_split r CHR ''.'') = length (str_split r' CHR ''.'') \<longrightarrow>
      validate_version (CHR ''v'' # r) = validate_version (CHR ''v'' # r')"
    by (simp add: validate_version_parts str_startswith_def)
  moreover have "validate_version ''v.''" "validate_version ''v1.''" "validate_version ''va.b''"
    by (simp_all add: validate_version_iff)
  ultimately show ?thesis by blast
qed

theorem validate_version_ignores_content_witness:
  "CHR ''.'' \<in> set ''1.x'' \<and> validate_version ''v1.x''
   \<and> length (str_split ''1.x'' CHR ''.'') = length (str_split ''.'' CHR ''.'')
   \<and> validate_version ''v1.x'' = validate_version ''v.''"
  using validate_version_ignores_content [of "''1.x''" "''.''"]
  by (simp add: str_split_def)

section \<open>The checksum generator\<close>

lemma read_blocks_eq:
  assumes "streaming H"
  shows "read_blocks H h f = h_update H h (drop (pos f) (content f))"
  using assms
proof (induction H h f rule: read_blocks.induct)
  case (1 H h f)
  let ?rest = "drop (pos f) (content f)"
  show ?case
  proof (cases "take 4096 ?rest = []")
    case True
    then have "?rest = []" by (cases ?rest) simp_all
    with True 1(2) show ?thesis
      by (subst read_blocks.simps) (simp add: file_read_def streaming_def)
  next
    case False
    let ?f' = "f\<lparr>pos := pos f + length (take 4096 ?rest)\<rparr>"
    have ih: "read_blocks H (h_update H h (take 4096 ?rest)) ?f' =
        h_update H (h_update H h (take 4096 ?rest)) (drop (pos ?f') (content ?f'))"
      using 1(1) [of "take 4096 ?rest" ?f'] False 1(2)
      by (simp add: file_read_def)
    have tl: "drop (pos ?f') (content ?f') = drop 4096 ?rest"
      by (simp add: min_def add.commute)
    have "read_blocks H h f = read_blocks H (h_update H h (take 4096 ?rest)) ?f'"
      using False by (subst read_blocks.simps) (simp add: file_read_def)
    also have "\<dots> = h_update H (h_update H h (take 4096 ?rest)) (drop 4096 ?rest)"
      using ih tl by simp
    also have "\<dots> = h_update H h (take 4096 ?rest @ drop 4096 ?rest)"
      using 1(2) by (simp add: streaming_def)
    also have "\<dots> = h_update H h ?rest"
      by (simp only: append_take_drop_id)
    finally show ?thesis .
  qed
qed

lemma hex_digit_lower: "hex_digit n \<in> set ''0123456789abcdef''"
  unfolding hex_digit_def by (rule nth_mem) simp

lemma hexdigest_lower: "set (hexdigest H h) \<subseteq> set ''0123456789abcdef''"
  using hex_digit_lower by (auto simp: hexdigest_def hex_byte_def)

lemma hexdigest_length: "length (hexdigest H h) = 2 * length (h_digest H h)"
  by (simp add: hexdigest_def hex_byte_def length_concat comp_def sum_list_triv)

lemma streaming_byte_sum_hash: "streaming byte_sum_hash"
  by (simp add: streaming_def byte_sum_hash_def)

text \<open>
  C9: for a hash object that meets the \<^verbatim>\<open>hashlib\<close> contract, feeding the file in
  4096-byte blocks gives the lowercase hexadecimal digest of the whole content fed at
  once; so two files with the same bytes get the same digest.
\<close>

theorem calculate_sha256_one_shot:
  assumes "streaming H" and "fs filepath = Some (File data)"
  shows "calculate_sha256 H fs filepath = Inr (reference_hexdigest H data)
    \<and> set (reference_hexdigest H data) \<subseteq> set ''0123456789abcdef''
    \<and> (fs' filepath' = Some (File data) \<longrightarrow>
          calculate_sha256 H fs' filepath' = calculate_sha256 H fs filepath)"
proof -
  have eq: "calculate_sha256 H g p = Inr (reference_hexdigest H data)"
    if "g p = Some (File data)" for g p
    using that assms(1)
    by (simp add: calculate_sha256_def reference_hexdigest_def read_blocks_eq)
  show ?thesis
    using assms(2) eq [of fs filepath] eq [of fs' filepath'] hexdigest_lower [of H]
    by (simp add: reference_hexdigest_def)
qed

theorem calculate_sha256_one_shot_witness:
  "streaming byte_sum_hash
   \<and> calculate_sha256 byte_sum_hash
       [[''dist'', ''claracore-linux-amd64''] \<mapsto> File (replicate 5000 CHR ''a'')]
       [''dist'', ''claracore-linux-amd64''] = Inr ''6688''"
  using calculate_sha256_one_shot [OF streaming_byte_sum_hash,
      of "[[''dist'', ''claracore-linux-amd64''] \<mapsto> File (replicate 5000 CHR ''a'')]"
         "[''dist'', ''claracore-linux-amd64'']" "replicate 5000 CHR ''a''"]
    streaming_byte_sum_hash
  by (simp add: reference_hexdigest_def hexdigest_def hex_byte_def hex_digit_def
      byte_sum_hash_def sum_list_replicate comp_def)

section \<open>The release publisher of scripts/release.py\<close>

text \<open>
  C1, amended: \<open>create_or_get_release\<close> looks the release up by tag first. When the
  lookup returns a release, that release is returned and no create request is sent.
  When the lookup fails with an HTTP status (404 or any other, such as 401), the
  create request is sent. When the lookup fails without an HTTP response (the network),
  the exception leaves the function and no create request is sent.
\<close>

theorem create_or_get_release_lookup:
  "(R sent (GetReleaseByTag token repo tag) = Inr rel \<longrightarrow>
      create_or_get_release R g token repo tag name notes draft pre sent =
        (Inr rel, sent @ [GetReleaseByTag token repo tag]))
   \<and> (R sent (GetReleaseByTag token repo tag) = Inl (HTTPError code msg) \<longrightarrow>
      create_or_get_release R g token repo tag name notes draft pre sent =
        (R (sent @ [GetReleaseByTag token repo tag])
           (CreateRelease token repo (create_payload g tag name notes draft pre)),
         sent @ [GetReleaseByTag token repo tag,
                 CreateRelease token repo (create_payload g tag name notes draft pre)]))
   \<and> (R sent (GetReleaseByTag token repo tag) = Inl e \<and> \<not> is_http_error e \<longrightarrow>
      create_or_get_release R g token repo tag name notes draft pre sent =
        (Inl e, sent @ [GetReleaseByTag token repo tag]))"
  by (cases e)
     (simp_all add: create_or_get_release_def urlopen_def create_payload_def is_http_error_def
        Let_def)

theorem create_or_get_release_lookup_witness:
  "create_or_get_release remote_has_release ''0a1b2c3'' ''tok'' ''o/r'' ''v1.0.0'' [] [] False False [] =
        (Inr example_release, [GetReleaseByTag ''tok'' ''o/r'' ''v1.0.0''])
   \<and> create_or_get_release remote_no_release ''0a1b2c3'' ''tok'' ''o/r'' ''v1.0.0'' [] [] False False [] =
        (Inr example_release,
         [GetReleaseByTag ''tok'' ''o/r'' ''v1.0.0'',
          CreateRelease ''tok'' ''o/r'' (create_payload ''0a1b2c3'' ''v1.0.0'' [] [] False False)])
   \<and> create_or_get_release remote_unreachable ''0a1b2c3'' ''tok'' ''o/r'' ''v1.0.0'' [] [] False False [] =
        (Inl (URLError ''Network is unreachable''), [GetReleaseByTag ''tok'' ''o/r'' ''v1.0.0''])"
  using create_or_get_release_lookup [of remote_has_release "[]" "''tok''" "''o/r''" "''v1.0.0''"
      example_release "''0a1b2c3''" "[]" "[]" False False]
    create_or_get_release_lookup [of remote_no_release "[]" "''tok''" "''o/r''" "''v1.0.0''"
      _ "''0a1b2c3''" "[]" "[]" False False 404 "''Not Found''"]
    create_or_get_release_lookup [of remote_unreachable "[]" "''tok''" "''o/r''" "''v1.0.0''"
      _ "''0a1b2c3''" "[]" "[]" False False _ _ "URLError ''Network is unreachable''"]
  by (simp add: remote_has_release_def remote_no_release_def remote_unreachable_def
      is_http_error_def)

text \<open>
  C1, as stated, fails: when the remote rejects the credentials (status 401) the
  lookup's exception is swallowed and the create request is sent.
\<close>

theorem create_attempted_after_auth_failure:
  "create_or_get_release remote_unauthorized ''0a1b2c3'' ''tok'' ''o/r'' ''v1.0.0'' [] [] False False [] =
     (Inl (HTTPError 401 ''Bad credentials''),
      [GetReleaseByTag ''tok'' ''o/r'' ''v1.0.0'',
       CreateRelease ''tok'' ''o/r'' (create_payload ''0a1b2c3'' ''v1.0.0'' [] [] False False)])"
  by (simp add: create_or_get_release_def urlopen_def remote_unauthorized_def
      create_payload_def Let_def)

section \<open>Uploading the archives\<close>

lemma gh_upload_asset_ok:
  assumes "fs z = Some (File d)" and "R sent (zip_request token url fs z) = Inr resp"
  shows "gh_upload_asset R token url z fs sent = (Inr (), sent @ [zip_request token url fs z])"
  using assms
  by (simp add: gh_upload_asset_def read_bytes_def urlopen_def zip_request_def)

lemma gh_upload_asset_fail:
  assumes "fs z = Some (File d)" and "R sent (zip_request token url fs z) = Inl e"
  shows "gh_upload_asset R token url z fs sent =
     (Inl (surfaced e), sent @ [zip_request token url fs z])"
  using assms
  by (cases e)
     (simp_all add: gh_upload_asset_def read_bytes_def urlopen_def zip_request_def surfaced_def)

lemma upload_zips_fail:
  assumes "\<forall>z \<in> set zs. \<exists>d. fs z = Some (File d)"
    and "i < length zs"
    and "\<forall>j<i. \<exists>resp. R (sent @ map (zip_request token url fs) (take j zs))
                          (zip_request token url fs (zs ! j)) = Inr resp"
    and "R (sent @ map (zip_request token url fs) (take i zs))
           (zip_request token url fs (zs ! i)) = Inl e"
  shows "upload_zips R token url zs fs sent =
     (Inl (surfaced e), sent @ map (zip_request token url fs) (take (Suc i) zs))"
  using assms
proof (induction zs arbitrary: sent i)
  case Nil
  then show ?case by simp
next
  case (Cons z zs)
  from Cons.prems(1) obtain d where d: "fs z = Some (File d)" by auto
  show ?case
  proof (cases i)
    case 0
    with Cons.prems(4) have "R sent (zip_request token url fs z) = Inl e" by simp
    with d have "gh_upload_asset R token url z fs sent =
        (Inl (surfaced e), sent @ [zip_request token url fs z])"
      by (rule gh_upload_asset_fail)
    with 0 show ?thesis by simp
  next
    case (Suc k)
    from Cons.prems(3) Suc obtain resp where
      "R sent (zip_request token url fs z) = Inr resp"
      by (auto dest: spec [of _ 0])
    with d have "gh_upload_asset R token url z fs sent =
        (Inr (), sent @ [zip_request token url fs z])"
      by (rule gh_upload_asset_ok)
    then have step: "upload_zips R token url (z # zs) fs sent =
        upload_zips R token url zs fs (sent @ [zip_request token url fs z])"
      by simp
    have "\<forall>j<k. \<exists>resp. R ((sent @ [zip_request token url fs z]) @
              map (zip_request token url fs) (take j zs))
            (zip_request token url fs (zs ! j)) = Inr resp"
    proof (intro allI impI)
      fix j assume "j < k"
      then have "Suc j < i" using Suc by simp
      with Cons.prems(3) show "\<exists>resp. R ((sent @ [zip_request token url fs z]) @
              map (zip_request token url fs) (take j zs))
            (zip_request token url fs (zs ! j)) = Inr resp"
        by (auto dest!: spec [of _ "Suc j"])
    qed
    moreover have "R ((sent @ [zip_request token url fs z]) @
              map (zip_request token url fs) (take k zs))
            (zip_request token url fs (zs ! k)) = Inl e"
      using Cons.prems(4) Suc by simp
    moreover have "\<forall>z \<in> set zs. \<exists>d. fs z = Some (File d)" "k < length zs"
      using Cons.prems(1,2) Suc by auto
    ultimately have "upload_zips R token url zs fs (sent @ [zip_request token url fs z]) =
        (Inl (surfaced e), (sent @ [zip_request token url fs z]) @
           map (zip_request token url fs) (take (Suc k) zs))"
      by (rule Cons.IH [rotated 2])
    with step Suc show ?thesis by simp
  qed
qed

lemma upload_zips_ok:
  assumes "\<forall>z \<in> set zs. \<exists>d. fs z = Some (File d)"
    and "\<forall>j<length zs. \<exists>resp. R (sent @ map (zip_request token url fs) (take j zs))
                          (zip_request token url fs (zs ! j)) = Inr resp"
  shows "upload_zips R token url zs fs sent =
     (Inr (), sent @ map (zip_request token url fs) zs)"
  using assms
proof (induction zs arbitrary: sent)
  case Nil
  then show ?case by simp
next
  case (Cons z zs)
  from Cons.prems(1) obtain d where d: "fs z = Some (File d)" by auto
  from Cons.prems(2) obtain resp where
    "R sent (zip_request token url fs z) = Inr resp"
    by (auto dest: spec [of _ 0])
  with d have "gh_upload_asset R token url z fs sent =
      (Inr (), sent @ [zip_request token url fs z])"
    by (rule gh_upload_asset_ok)
  then have step: "upload_zips R token url (z # zs) fs sent =
      upload_zips R token url zs fs (sent @ [zip_request token url fs z])"
    by simp
  have "\<forall>j<length zs. \<exists>resp. R ((sent @ [zip_request token url fs z]) @
            map (zip_request token url fs) (take j zs))
          (zip_request token url fs (zs ! j)) = Inr resp"
  proof (intro allI impI)
    fix j assume "j < length zs"
    with Cons.prems(2) show "\<exists>resp. R ((sent @ [zip_request token url fs z]) @
            map (zip_request token url fs) (take j zs))
          (zip_request token url fs (zs ! j)) = Inr resp"
      by (auto dest!: spec [of _ "Suc j"])
  qed
  with Cons.prems(1) have "upload_zips R token url zs fs (sent @ [zip_request token url fs z]) =
      (Inr (), (sent @ [zip_request token url fs z]) @ map (zip_request token url fs) zs)"
    by (intro Cons.IH) auto
  with step show ?case by simp
qed

text \<open>
  C4: in a run of \<^verbatim>\<open>scripts/release.py\<close> whose build produced the archives \<open>zips\<close> and
  whose release was found or created, let the upload of archive \<open>i\<close> be the first the
  remote fails. Then the upload loop raises: for an HTTP status (a conflict, rejected
  credentials) \<^verbatim>\<open>SystemExit\<close> with the status and the response body, otherwise the
  exception itself. The run exits with status 1; the requests sent end with the failed
  upload, so no later archive is uploaded and nothing is sent to replace or remove an
  asset; and the file system is as the build left it.
\<close>

theorem upload_failure_aborts_run:
  assumes "\<not> s_skip_upload args" and "env_token X \<noteq> []" and "x_go_found X"
    and build: "script_build X args (w_fs W) = (Inr zips, fs1)"
    and files: "\<forall>z \<in> set zips. \<exists>d. fs1 z = Some (File d)"
    and repo: "(if s_repo args \<noteq> [] then Inr (s_repo args) else get_repo_slug X) = Inr repo"
    and rel: "create_or_get_release (x_remote X) (x_git_head X) (env_token X) repo (s_tag args)
        (if s_name args \<noteq> [] then s_name args else s_tag args) (s_notes args) (s_draft args)
        (s_prerelease args) (w_sent W) = (Inr rel, sent1)"
    and url: "rel ''upload_url'' = Some url" "url \<noteq> []"
    and i: "i < length zips"
    and earlier: "\<forall>j<i. \<exists>resp. x_remote X
        (sent1 @ map (zip_request (env_token X) url fs1) (take j zips))
        (zip_request (env_token X) url fs1 (zips ! j)) = Inr resp"
    and failure: "x_remote X
        (sent1 @ map (zip_request (env_token X) url fs1) (take i zips))
        (zip_request (env_token X) url fs1 (zips ! i)) = Inl e"
  shows "upload_zips (x_remote X) (env_token X) url zips fs1 sent1 =
       (Inl (surfaced e), sent1 @ map (zip_request (env_token X) url fs1) (take (Suc i) zips))
     \<and> (is_http_error e \<longrightarrow> (\<exists>code msg. e = HTTPError code msg \<and> surfaced e = upload_failed code msg))
     \<and> (\<not> is_http_error e \<longrightarrow> surfaced e = e)
     \<and> script_main X args W =
       (1, \<lparr>w_fs = fs1,
            w_sent = sent1 @ map (zip_request (env_token X) url fs1) (take (Suc i) zips)\<rparr>)"
proof -
  have up: "upload_zips (x_remote X) (env_token X) url zips fs1 sent1 =
       (Inl (surfaced e), sent1 @ map (zip_request (env_token X) url fs1) (take (Suc i) zips))"
    using files i earlier failure by (rule upload_zips_fail)
  have "script_publish X args (env_token X) zips fs1 (w_sent W) =
       (Inl (surfaced e), sent1 @ map (zip_request (env_token X) url fs1) (take (Suc i) zips))"
    using repo rel url up by (simp add: script_publish_def)
  then have main: "script_main X args W =
       (1, \<lparr>w_fs = fs1,
            w_sent = sent1 @ map (zip_request (env_token X) url fs1) (take (Suc i) zips)\<rparr>)"
    using assms(1-3) build
    by (simp add: script_main_def ensure_tools_def exit_status_def Let_def)
  have "is_http_error e \<longrightarrow> (\<exists>code msg. e = HTTPError code msg \<and> surfaced e = upload_failed code msg)"
    "\<not> is_http_error e \<longrightarrow> surfaced e = e"
    by (cases e; simp add: is_http_error_def surfaced_def)+
  with up main show ?thesis by blast
qed

text \<open>Evaluating the example run.\<close>

lemmas eval_defs = script_build_def attempt_def path_exists_def DIST_def mkdir_def parents_def
  build_ui_def script_targets_def build_target_def go_run_def stage_and_zip_def stage_name_def
  Let_def rmtree_def copy2_def read_bytes_def path_name_def aux_files_def is_dir_def unlink_def
  make_archive_def with_suffix_empty_def name_suffix_def tree_below_def

lemma example_build:
  "fst (script_build example_script_env example_script_args empty_fs) =
     Inr [[''dist'', ''claracore-v1-darwin-arm64.zip''],
          [''dist'', ''claracore-v1-windows-amd64.zip''],
          [''dist'', ''claracore-v1-linux-amd64.zip'']]"
  "snd (script_build example_script_env example_script_args empty_fs)
     [''dist'', ''claracore-v1-darwin-arm64.zip''] = Some (File ''PK'')"
  "snd (script_build example_script_env example_script_args empty_fs)
     [''dist'', ''claracore-v1-windows-amd64.zip''] = Some (File ''PK'')"
  "snd (script_build example_script_env example_script_args empty_fs)
     [''dist'', ''claracore-v1-linux-amd64.zip''] = Some (File ''PK'')"
  by (simp_all add: eval_defs example_script_env_def example_script_args_def empty_fs_def
      go_all_def)

theorem upload_failure_aborts_run_witness:
  "script_main example_script_env example_script_args \<lparr>w_fs = empty_fs, w_sent = []\<rparr> =
     (1, \<lparr>w_fs = snd (script_build example_script_env example_script_args empty_fs),
          w_sent =
            [GetReleaseByTag ''tok'' ''o/r'' ''v1'',
             CreateRelease ''tok'' ''o/r'' (create_payload ''0a1b2c3'' ''v1'' ''v1'' [] False False),
             UploadAsset ''tok'' ''https://uploads.example/assets''
               ''claracore-v1-darwin-arm64.zip'' ''application/zip'' ''PK'',
             UploadAsset ''tok'' ''https://uploads.example/assets''
               ''claracore-v1-windows-amd64.zip'' ''application/zip'' ''PK'']\<rparr>)
   \<and> surfaced (HTTPError 422 ''already_exists'') =
       SystemExit ''Asset upload failed (422): already_exists''"
proof -
  let ?X = example_script_env and ?args = example_script_args
  let ?W = "\<lparr>w_fs = empty_fs, w_sent = []\<rparr>"
  let ?zips = "[[''dist'', ''claracore-v1-darwin-arm64.zip''],
          [''dist'', ''claracore-v1-windows-amd64.zip''],
          [''dist'', ''claracore-v1-linux-amd64.zip'']]"
  let ?fs1 = "snd (script_build example_script_env example_script_args empty_fs)"
  let ?sent1 = "[GetReleaseByTag ''tok'' ''o/r'' ''v1'',
             CreateRelease ''tok'' ''o/r'' (create_payload ''0a1b2c3'' ''v1'' ''v1'' [] False False)]"
  let ?url = "''https://uploads.example/assets{?name,label}''"
  have tok: "env_token ?X = ''tok''"
    by (simp add: env_token_def example_script_env_def)
  have 1: "\<not> s_skip_upload ?args" "env_token ?X \<noteq> []" "x_go_found ?X"
    unfolding tok by (simp_all add: example_script_args_def example_script_env_def)
  have 2: "script_build ?X ?args (w_fs ?W) = (Inr ?zips, ?fs1)"
    using example_build(1) by (simp add: prod_eq_iff)
  have 3: "\<forall>z \<in> set ?zips. \<exists>d. ?fs1 z = Some (File d)"
    using example_build(2-4) by simp
  have 4: "(if s_repo ?args \<noteq> [] then Inr (s_repo ?args) else get_repo_slug ?X) = Inr ''o/r''"
    by (simp add: example_script_args_def)
  have 5: "create_or_get_release (x_remote ?X) (x_git_head ?X) (env_token ?X) ''o/r'' (s_tag ?args)
        (if s_name ?args \<noteq> [] then s_name ?args else s_tag ?args) (s_notes ?args) (s_draft ?args)
        (s_prerelease ?args) (w_sent ?W) = (Inr example_release, ?sent1)"
    unfolding tok
    by (simp add: example_script_args_def example_script_env_def create_or_get_release_def
        urlopen_def remote_conflict_def create_payload_def Let_def)
  have 6: "example_release ''upload_url'' = Some ?url" "?url \<noteq> []"
    by (simp_all add: example_release_def)
  have 7: "(1::nat) < length ?zips" by simp
  have 8: "\<forall>j<(1::nat). \<exists>resp. x_remote ?X
        (?sent1 @ map (zip_request (env_token ?X) ?url ?fs1) (take j ?zips))
        (zip_request (env_token ?X) ?url ?fs1 (?zips ! j)) = Inr resp"
    unfolding tok
    by (simp add: example_script_env_def remote_conflict_def zip_request_def path_name_def)
  have 9: "x_remote ?X
        (?sent1 @ map (zip_request (env_token ?X) ?url ?fs1) (take 1 ?zips))
        (zip_request (env_token ?X) ?url ?fs1 (?zips ! 1)) = Inl (HTTPError 422 ''already_exists'')"
    unfolding tok
    by (simp add: example_script_env_def remote_conflict_def zip_request_def path_name_def)
  show ?thesis
    using upload_failure_aborts_run [OF 1 2 3 4 5 6 7 8 9] example_build(2-4)
    unfolding tok
    by (simp add: zip_request_def path_name_def surfaced_def upload_failed_def)
qed

section \<open>The artifact packager\<close>















section \<open>The publisher of release.py\<close>

lemma startswith_prefix: "str_startswith s p \<longleftrightarrow> prefix p s"
  unfolding str_startswith_def
  by (metis prefix_def append_eq_conv_conj take_is_prefix)

lemma find_from_iff: "find_from i s sub \<noteq> - 1 \<longleftrightarrow> sublist sub s"
proof (induction s arbitrary: i)
  case Nil
  then show ?case by simp
next
  case (Cons c cs)
  show ?case
  proof (cases "prefix sub (c # cs)")
    case True
    then show ?thesis
      by (simp add: startswith_prefix)
  next
    case False
    then show ?thesis
      using Cons.IH [of "Suc i"]
      by (simp add: startswith_prefix sublist_Cons_right)
  qed
qed

lemma str_find_iff: "str_find s sub \<noteq> - 1 \<longleftrightarrow> sublist sub s"
  by (simp add: str_find_def find_from_iff)

lemma version_prerelease_iff:
  "version_prerelease v \<longleftrightarrow> sublist ''alpha'' v \<or> sublist ''beta'' v \<or> sublist ''rc'' v"
  by (simp add: version_prerelease_def str_find_iff)

lemma created_payloads_append:
  "created_payloads (xs @ ys) = created_payloads xs @ created_payloads ys"
  by (induction xs rule: created_payloads.induct) simp_all

lemma checksums_content_fold:
  "foldl (\<lambda>acc binary. acc @ b_sha256 binary @ ''  '' @ t_filename (b_target binary) @ [CHR 0x0A])
     acc binaries = acc @ spec_manifest binaries"
  by (induction binaries arbitrary: acc) (simp_all add: spec_manifest_def manifest_line_def)

lemma checksums_content_eq:
  "checksums_content version binaries =
     ''# SHA256 Checksums for ClaraCore '' @ version @ [CHR 0x0A, CHR 0x0A] @
     spec_manifest binaries"
  unfolding checksums_content_def checksums_content_fold by simp

lemma upload_asset_sent:
  "\<exists>reqs. snd (upload_asset R token release p n ct fs sent) = sent @ reqs \<and>
     created_payloads reqs = [] \<and>
     (fst (upload_asset R token release p n ct fs sent) = Inr () \<longrightarrow>
        reqs = [UploadAsset token (case release ''upload_url'' of Some u \<Rightarrow> u | None \<Rightarrow> [])
                  n ct (case fs p of Some (File d) \<Rightarrow> d | _ \<Rightarrow> [])])"
  by (auto simp: upload_asset_def read_bytes_def urlopen_def
      split: option.splits node.splits sum.splits)

lemma upload_binaries_sent:
  "\<exists>reqs. snd (upload_binaries R token release bs fs sent) = sent @ reqs \<and>
     created_payloads reqs = [] \<and>
     (fst (upload_binaries R token release bs fs sent) = Inr () \<longrightarrow> length reqs = length bs)"
proof (induction bs arbitrary: sent)
  case Nil
  then show ?case by simp
next
  case (Cons b bs)
  obtain r s1 where up: "upload_asset R token release (b_path b) (t_filename (b_target b))
             ''application/octet-stream'' fs sent = (r, s1)"
    by (cases "upload_asset R token release (b_path b) (t_filename (b_target b))
             ''application/octet-stream'' fs sent")
  from upload_asset_sent [of R token release "b_path b" "t_filename (b_target b)"
      "''application/octet-stream''" fs sent] up
  obtain reqs1 where r1: "s1 = sent @ reqs1" "created_payloads reqs1 = []"
    "r = Inr () \<longrightarrow> length reqs1 = 1"
    by auto
  show ?case
  proof (cases r)
    case (Inl e)
    with up r1 show ?thesis by simp
  next
    case (Inr u)
    from Cons.IH [of s1] obtain reqs2 where
      "snd (upload_binaries R token release bs fs s1) = s1 @ reqs2"
      "created_payloads reqs2 = []"
      "fst (upload_binaries R token release bs fs s1) = Inr () \<longrightarrow> length reqs2 = length bs"
      by blast
    with Inr up r1 show ?thesis
      by (auto simp: created_payloads_append)
  qed
qed

lemma release_steps_sent:
  "\<exists>reqs. w_sent (snd (release_steps E token version binaries draft W)) = w_sent W @ reqs \<and>
     set (created_payloads reqs) \<subseteq> {release_payload_of E version binaries draft} \<and>
     (fst (release_steps E token version binaries draft W) = Inr () \<longrightarrow>
        (\<exists>pre release. reqs = pre @ [manifest_request token release version binaries] \<and>
            length pre = 2 + length binaries) \<and>
        w_fs (snd (release_steps E token version binaries draft W))
          (BUILD_DIR @ [''checksums.txt'']) = Some (File (checksums_content version binaries)))"
proof -
  let ?R = "e_remote E" and ?fs = "w_fs W" and ?s0 = "w_sent W"
  let ?payload = "release_payload_of E version binaries draft"
  let ?get = "GetRepo token REPO_SLUG" and ?create = "CreateRelease token REPO_SLUG ?payload"
  let ?cp = "BUILD_DIR @ [''checksums.txt'']"
  show ?thesis
  proof (cases "?R ?s0 ?get")
    case (Inl e)
    then show ?thesis
      by (simp add: release_steps_def urlopen_def Let_def)
  next
    case repo: (Inr repo)
    show ?thesis
    proof (cases "?R (?s0 @ [?get]) ?create")
      case (Inl e)
      with repo show ?thesis
        by (simp add: release_steps_def urlopen_def Let_def release_payload_of_def)
    next
      case rel: (Inr release)
      let ?s2 = "?s0 @ [?get, ?create]"
      obtain r3 s3 where ub: "upload_binaries ?R token release binaries ?fs ?s2 = (r3, s3)"
        by (cases "upload_binaries ?R token release binaries ?fs ?s2")
      from upload_binaries_sent [of ?R token release binaries ?fs ?s2] ub
      obtain reqs3 where s3: "s3 = ?s2 @ reqs3" "created_payloads reqs3 = []"
        "r3 = Inr () \<longrightarrow> length reqs3 = length binaries"
        by auto
      have start: "release_steps E token version binaries draft W =
        (case r3 of
           Inl e \<Rightarrow> (Inl e, W\<lparr>w_sent := s3\<rparr>)
         | Inr u \<Rightarrow>
            (case write_text ?fs ?cp (checksums_content version binaries) of
               Inl e \<Rightarrow> (Inl e, W\<lparr>w_sent := s3\<rparr>)
             | Inr fs1 \<Rightarrow>
                (case upload_asset ?R token release ?cp ''checksums.txt'' ''text/plain'' fs1 s3 of
                   (Inl e, s4) \<Rightarrow> (Inl e, \<lparr>w_fs = fs1, w_sent = s4\<rparr>)
                 | (Inr u, s4) \<Rightarrow>
                     (defender_reminder E binaries fs1, \<lparr>w_fs = fs1, w_sent = s4\<rparr>))))"
        using repo rel ub
        by (cases r3) (simp_all add: release_steps_def urlopen_def Let_def release_payload_of_def)
      show ?thesis
      proof (cases r3)
        case (Inl e)
        with start s3 show ?thesis by simp
      next
        case r3: (Inr u)
        show ?thesis
        proof (cases "write_text ?fs ?cp (checksums_content version binaries)")
          case (Inl e)
          with start r3 s3 show ?thesis by simp
        next
          case wt: (Inr fs1)
          then have fs1: "fs1 ?cp = Some (File (checksums_content version binaries))"
            by (auto simp: write_text_def split: if_splits)
          obtain r4 s4 where ua: "upload_asset ?R token release ?cp ''checksums.txt''
              ''text/plain'' fs1 s3 = (r4, s4)"
            by (cases "upload_asset ?R token release ?cp ''checksums.txt'' ''text/plain'' fs1 s3")
          from upload_asset_sent [of ?R token release ?cp "''checksums.txt''" "''text/plain''"
              fs1 s3] ua fs1
          obtain reqs4 where s4: "s4 = s3 @ reqs4" "created_payloads reqs4 = []"
            "r4 = Inr () \<longrightarrow> reqs4 = [manifest_request token release version binaries]"
            by (auto simp: manifest_request_def)
          have res: "release_steps E token version binaries draft W =
            (case r4 of Inl e \<Rightarrow> (Inl e, \<lparr>w_fs = fs1, w_sent = s4\<rparr>)
             | Inr u \<Rightarrow> (defender_reminder E binaries fs1, \<lparr>w_fs = fs1, w_sent = s4\<rparr>))"
            using start r3 wt ua by (simp split: sum.splits)
          have sent: "w_sent (snd (release_steps E token version binaries draft W)) =
              ?s0 @ ([?get, ?create] @ reqs3 @ reqs4)"
            using res s3 s4 by (simp split: sum.splits)
          have created: "created_payloads ([?get, ?create] @ reqs3 @ reqs4) = [?payload]"
            using s3 s4 by (simp add: created_payloads_append)
          show ?thesis
          proof (cases r4)
            case (Inl e)
            with res sent created show ?thesis
              by (intro exI [of _ "[?get, ?create] @ reqs3 @ reqs4"]) simp
          next
            case (Inr u4)
            then have "reqs4 = [manifest_request token release version binaries]"
              using s4 by simp
            moreover have "length ([?get, ?create] @ reqs3) = 2 + length binaries"
              using s3 r3 by simp
            ultimately have "\<exists>pre release'. [?get, ?create] @ reqs3 @ reqs4 =
                pre @ [manifest_request token release' version binaries] \<and>
                length pre = 2 + length binaries"
              by (intro exI [of _ "[?get, ?create] @ reqs3"] exI [of _ release]) simp
            moreover have "w_fs (snd (release_steps E token version binaries draft W)) ?cp =
                Some (File (checksums_content version binaries))"
              using res Inr fs1 by simp
            ultimately show ?thesis
              using sent created
              by (intro exI [of _ "[?get, ?create] @ reqs3 @ reqs4"]) simp
          qed
        qed
      qed
    qed
  qed
qed

section \<open>The checksum manifest\<close>

text \<open>
  C5, as stated, fails: the manifest of one artifact has three lines; it starts with a
  header line and an empty line.
\<close>

theorem manifest_has_header:
  "count_list (checksums_content ''v1.0.0'' [example_binary]) (CHR 0x0A) = 3
   \<and> length [example_binary] = 1
   \<and> take 8 (checksums_content ''v1.0.0'' [example_binary]) = ''# SHA256''
   \<and> checksums_content ''v1.0.0'' [example_binary] \<noteq> spec_manifest [example_binary]"
  by (simp add: checksums_content_def spec_manifest_def manifest_line_def example_binary_def)

text \<open>
  C5, amended: the manifest \<^verbatim>\<open>release.py\<close> writes is a header line naming the version,
  an empty line, and then exactly one line per artifact of the form digest, two spaces,
  file name. When \<open>create_github_release\<close> succeeds, the manifest was written to
  \<^verbatim>\<open>dist/checksums.txt\<close> and its upload as \<^verbatim>\<open>checksums.txt\<close> is the last request, after
  the repository lookup, the create request and one upload per binary.
\<close>

theorem checksums_manifest_published:
  "checksums_content version binaries =
     ''# SHA256 Checksums for ClaraCore '' @ version @ [CHR 0x0A, CHR 0x0A] @
     spec_manifest binaries
   \<and> (fst (create_github_release E token version binaries draft W) \<longrightarrow>
        (\<exists>pre release.
            new_requests (w_sent W)
              (w_sent (snd (create_github_release E token version binaries draft W))) =
              pre @ [manifest_request token release version binaries] \<and>
            length pre = 2 + length binaries) \<and>
        w_fs (snd (create_github_release E token version binaries draft W))
          (BUILD_DIR @ [''checksums.txt'']) = Some (File (checksums_content version binaries)))"
proof -
  obtain r W1 where rs: "release_steps E token version binaries draft W = (r, W1)"
    by (cases "release_steps E token version binaries draft W")
  have cg: "create_github_release E token version binaries draft W =
      (case r of Inl e \<Rightarrow> False | Inr u \<Rightarrow> True, W1)"
    using rs by (simp add: create_github_release_def split: sum.splits)
  from release_steps_sent [of E token version binaries draft W] rs
  obtain reqs where "w_sent W1 = w_sent W @ reqs"
    "r = Inr () \<longrightarrow>
        (\<exists>pre release. reqs = pre @ [manifest_request token release version binaries] \<and>
            length pre = 2 + length binaries) \<and>
        w_fs W1 (BUILD_DIR @ [''checksums.txt'']) =
          Some (File (checksums_content version binaries))"
    by auto
  then show ?thesis
    using cg by (cases r) (simp_all add: checksums_content_eq new_requests_def)
qed

theorem checksums_manifest_published_witness:
  "fst (create_github_release example_release_env ''tok'' ''v1.0.0'' [example_binary] False
          \<lparr>w_fs = built_fs, w_sent = []\<rparr>)
   \<and> w_sent (snd (create_github_release example_release_env ''tok'' ''v1.0.0''
          [example_binary] False \<lparr>w_fs = built_fs, w_sent = []\<rparr>)) =
       [GetRepo ''tok'' REPO_SLUG,
        CreateRelease ''tok'' REPO_SLUG
          (release_payload_of example_release_env ''v1.0.0'' [example_binary] False),
        UploadAsset ''tok'' ''https://uploads.example/assets{?name,label}''
          ''claracore-linux-amd64'' ''application/octet-stream'' ''ELF'',
        manifest_request ''tok'' example_release ''v1.0.0'' [example_binary]]
   \<and> w_fs (snd (create_github_release example_release_env ''tok'' ''v1.0.0''
          [example_binary] False \<lparr>w_fs = built_fs, w_sent = []\<rparr>))
          [''dist'', ''checksums.txt''] =
       Some (File (''# SHA256 Checksums for ClaraCore v1.0.0'' @ [CHR 0x0A, CHR 0x0A] @
                   ''6688  claracore-linux-amd64'' @ [CHR 0x0A]))"
proof -
  have run: "create_github_release example_release_env ''tok'' ''v1.0.0'' [example_binary] False
          \<lparr>w_fs = built_fs, w_sent = []\<rparr> =
     (True, \<lparr>w_fs = built_fs([''dist'', ''checksums.txt''] \<mapsto>
                File (checksums_content ''v1.0.0'' [example_binary])),
            w_sent = [GetRepo ''tok'' REPO_SLUG,
        CreateRelease ''tok'' REPO_SLUG
          (release_payload_of example_release_env ''v1.0.0'' [example_binary] False),
        UploadAsset ''tok'' ''https://uploads.example/assets{?name,label}''
          ''claracore-linux-amd64'' ''application/octet-stream'' ''ELF'',
        manifest_request ''tok'' example_release ''v1.0.0'' [example_binary]]\<rparr>)"
    by (simp add: create_github_release_def release_steps_def urlopen_def Let_def
        example_release_env_def remote_no_release_def example_binary_def built_fs_def
        upload_asset_def read_bytes_def example_release_def write_text_def is_dir_def
        BUILD_DIR_def defender_reminder_def release_payload_of_def manifest_request_def)
  show ?thesis
    using checksums_manifest_published [of "''v1.0.0''" "[example_binary]" example_release_env
        "''tok''" False "\<lparr>w_fs = built_fs, w_sent = []\<rparr>"]
    unfolding run
    by (simp add: spec_manifest_def manifest_line_def example_binary_def)
qed

section \<open>The prerelease flag\<close>

lemma create_or_get_release_created:
  "created_payloads (new_requests sent
       (snd (create_or_get_release R g token repo tag name notes draft prerelease sent)))
   \<in> {[], [create_payload g tag name notes draft prerelease]}"
  by (auto simp: create_or_get_release_def urlopen_def new_requests_def Let_def
      create_payload_def split: sum.splits error.splits)

text \<open>
  C6, amended: a release \<^verbatim>\<open>scripts/release.py\<close> creates carries the operator's
  \<^verbatim>\<open>--prerelease\<close> flag, whatever the tag; a release \<^verbatim>\<open>release.py\<close> creates is a
  prerelease exactly when its version contains \<^verbatim>\<open>alpha\<close>, \<^verbatim>\<open>beta\<close> or \<^verbatim>\<open>rc\<close>.
\<close>

theorem prerelease_flag_by_script:
  "(\<forall>p \<in> set (created_payloads (new_requests sent
        (snd (create_or_get_release R g token repo tag name notes draft prerelease sent)))).
      p_prerelease p = prerelease)
   \<and> (\<forall>p \<in> set (created_payloads (new_requests (w_sent W)
        (w_sent (snd (create_github_release E token version binaries draft W))))).
      p_prerelease p =
        (sublist ''alpha'' version \<or> sublist ''beta'' version \<or> sublist ''rc'' version))"
proof -
  have "\<forall>p \<in> set (created_payloads (new_requests sent
        (snd (create_or_get_release R g token repo tag name notes draft prerelease sent)))).
      p_prerelease p = prerelease"
    using create_or_get_release_created [of sent R g token repo tag name "notes" draft prerelease]
    by (auto simp: create_payload_def)
  moreover have "\<forall>p \<in> set (created_payloads (new_requests (w_sent W)
        (w_sent (snd (create_github_release E token version binaries draft W))))).
      p_prerelease p =
        (sublist ''alpha'' version \<or> sublist ''beta'' version \<or> sublist ''rc'' version)"
  proof -
    have "snd (create_github_release E token version binaries draft W) =
        snd (release_steps E token version binaries draft W)"
      by (simp add: create_github_release_def split: prod.splits sum.splits)
    with release_steps_sent [of E token version binaries draft W]
    obtain reqs where
      "w_sent (snd (create_github_release E token version binaries draft W)) = w_sent W @ reqs"
      "set (created_payloads reqs) \<subseteq> {release_payload_of E version binaries draft}"
      by auto
    then show ?thesis
      by (auto simp: new_requests_def release_payload_of_def version_prerelease_iff)
  qed
  ultimately show ?thesis by blast
qed

theorem prerelease_flag_by_script_witness:
  "created_payloads (new_requests []
        (snd (create_or_get_release remote_no_release ''0a1b2c3'' ''tok'' ''o/r'' ''v1.0.0''
                [] [] False True []))) =
     [create_payload ''0a1b2c3'' ''v1.0.0'' [] [] False True]
   \<and> p_prerelease (create_payload ''0a1b2c3'' ''v1.0.0'' [] [] False True)
   \<and> created_payloads (new_requests []
        (w_sent (snd (create_github_release example_release_env ''tok'' ''v1.0.0-rc1'' [] False
                \<lparr>w_fs = built_fs, w_sent = []\<rparr>)))) =
     [release_payload_of example_release_env ''v1.0.0-rc1'' [] False]
   \<and> p_prerelease (release_payload_of example_release_env ''v1.0.0-rc1'' [] False)
   \<and> sublist ''rc'' ''v1.0.0-rc1''"
proof -
  have 1: "created_payloads (new_requests []
        (snd (create_or_get_release remote_no_release ''0a1b2c3'' ''tok'' ''o/r'' ''v1.0.0''
                [] [] False True []))) =
     [create_payload ''0a1b2c3'' ''v1.0.0'' [] [] False True]"
    by (simp add: create_or_get_release_def urlopen_def remote_no_release_def new_requests_def
        create_payload_def Let_def)
  have 2: "created_payloads (new_requests []
        (w_sent (snd (create_github_release example_release_env ''tok'' ''v1.0.0-rc1'' [] False
                \<lparr>w_fs = built_fs, w_sent = []\<rparr>)))) =
     [release_payload_of example_release_env ''v1.0.0-rc1'' [] False]"
    by (simp add: create_github_release_def release_steps_def urlopen_def Let_def
        example_release_env_def remote_no_release_def built_fs_def new_requests_def
        upload_asset_def read_bytes_def example_release_def write_text_def is_dir_def
        BUILD_DIR_def defender_reminder_def release_payload_of_def)
  have 3: "sublist ''rc'' ''v1.0.0-rc1''"
    by (rule sublist_appendI [of "''rc''" "''v1.0.0-''" "''1''", simplified])
  show ?thesis
    using prerelease_flag_by_script [of "[]" remote_no_release "''0a1b2c3''" "''tok''" "''o/r''"
        "''v1.0.0''" "[]" "[]" False True "\<lparr>w_fs = built_fs, w_sent = []\<rparr>"
        example_release_env "''v1.0.0-rc1''" "[]"] 3
    by (simp add: 1 2)
qed

text \<open>
  C6, as stated, fails: \<^verbatim>\<open>scripts/release.py --tag v1.0.0-beta\<close> without \<^verbatim>\<open>--prerelease\<close>
  creates a release that is not a prerelease, although the tag contains \<^verbatim>\<open>beta\<close>.
\<close>

theorem prerelease_ignores_tag_marker:
  "map p_prerelease (created_payloads
      (snd (create_or_get_release remote_no_release ''0a1b2c3'' ''tok'' ''o/r'' ''v1.0.0-beta''
              [] [] False False []))) = [False]
   \<and> str_find ''v1.0.0-beta'' ''beta'' = 7"
  by (simp add: create_or_get_release_def urlopen_def remote_no_release_def Let_def
      str_find_def str_startswith_def)

section \<open>The build loops\<close>

lemma sign_windows_binary_file:
  assumes "fs p = Some (File b)"
  shows "\<exists>b'. sign_windows_binary E p fs p = Some (File b')"
    and "q \<noteq> p \<Longrightarrow> sign_windows_binary E p fs q = fs q"
  using assms by (auto simp: sign_windows_binary_def split: option.splits)

lemma calculate_sha256_file:
  "fs p = Some (File d) \<Longrightarrow> \<exists>h. calculate_sha256 H fs p = Inr h"
  by (simp add: calculate_sha256_def)

lemma build_one_absent:
  assumes "fs (bp @ [t_filename t]) = None"
  shows "\<exists>r fs'. build_one E v bp t fs = (Inr r, fs') \<and>
     (\<forall>q. q \<noteq> bp @ [t_filename t] \<longrightarrow> fs' q = fs q) \<and>
     (if compiles E v bp t
      then (\<exists>info d. r = Some info \<and> b_target info = t \<and> b_path info = bp @ [t_filename t] \<and>
              fs' (bp @ [t_filename t]) = Some (File d))
      else r = None \<and> fs' = fs)"
proof (cases "e_go_build E (build_cmd E v t (bp @ [t_filename t])) (build_env E t)")
  case (CompileError rc)
  then show ?thesis
    using assms
    by (cases "rc = 0") (simp_all add: build_one_def go_run_def compiles_def path_exists_def Let_def)
next
  case NoOutput
  then show ?thesis
    using assms by (simp add: build_one_def go_run_def compiles_def path_exists_def Let_def)
next
  case (Binary b)
  let ?out = "bp @ [t_filename t]"
  let ?fs1 = "fs(?out \<mapsto> File b)"
  let ?fs2 = "if t_goos t = ''windows'' then sign_windows_binary E ?out ?fs1 else ?fs1"
  have f1: "?fs1 ?out = Some (File b)" by simp
  obtain d where d: "?fs2 ?out = Some (File d)"
    using sign_windows_binary_file(1) [of ?fs1 ?out b E] by (cases "t_goos t = ''windows''") auto
  have other: "?fs2 q = fs q" if "q \<noteq> ?out" for q
    using that sign_windows_binary_file(2) [of ?fs1 ?out b q E] by simp
  obtain h where h: "calculate_sha256 (e_hashlib E) ?fs2 ?out = Inr h"
    using calculate_sha256_file [of ?fs2 ?out d "e_hashlib E"] d by blast
  have "build_one E v bp t fs =
      (Inr (Some \<lparr>b_target = t, b_path = ?out,
                  b_size = e_file_size E (file_size ?fs2 ?out), b_sha256 = h\<rparr>), ?fs2)"
    using Binary h by (simp add: build_one_def go_run_def path_exists_def Let_def)
  then show ?thesis
    using Binary d other by (simp add: compiles_def)
qed

lemma build_loop_result:
  assumes "distinct (map t_filename ts)"
    and "\<forall>t \<in> set ts. fs (bp @ [t_filename t]) = None"
  shows "\<exists>infos fs'. build_loop E v bp ts built fs = (Inr (built @ infos), fs') \<and>
     map b_target infos = filter (compiles E v bp) ts \<and>
     (\<forall>i \<in> set infos. b_path i = bp @ [t_filename (b_target i)] \<and>
        (\<exists>d. fs' (b_path i) = Some (File d))) \<and>
     (\<forall>q. (\<forall>t \<in> set ts. q \<noteq> bp @ [t_filename t]) \<longrightarrow> fs' q = fs q) \<and>
     (\<forall>t \<in> set ts. \<not> compiles E v bp t \<longrightarrow> fs' (bp @ [t_filename t]) = None)"
  using assms
proof (induction ts arbitrary: built fs)
  case Nil
  then show ?case by simp
next
  case (Cons t ts)
  let ?out = "bp @ [t_filename t]"
  from Cons.prems(2) have absent: "fs ?out = None" by simp
  from absent build_one_absent [of fs bp t E v]
  obtain r fs1 where one: "build_one E v bp t fs = (Inr r, fs1)"
    and keep: "\<And>q. q \<noteq> ?out \<Longrightarrow> fs1 q = fs q"
    and res: "if compiles E v bp t
      then (\<exists>info d. r = Some info \<and> b_target info = t \<and> b_path info = ?out \<and>
              fs1 ?out = Some (File d))
      else r = None \<and> fs1 = fs"
    by blast
  have other: "bp @ [t_filename t'] \<noteq> ?out" if "t' \<in> set ts" for t'
    using that Cons.prems(1) by (auto simp: image_iff)
  then have out_other: "\<forall>t' \<in> set ts. ?out \<noteq> bp @ [t_filename t']"
    by metis
  have d: "distinct (map t_filename ts)"
    using Cons.prems(1) by simp
  have a: "\<forall>t' \<in> set ts. fs1 (bp @ [t_filename t']) = None"
    using Cons.prems(2) keep other by simp
  show ?case
  proof (cases "compiles E v bp t")
    case True
    with res obtain info d where info: "r = Some info" "b_target info = t" "b_path info = ?out"
      "fs1 ?out = Some (File d)"
      by auto
    from Cons.IH [OF d a, of "built @ [info]"]
    obtain infos fs' where ih: "build_loop E v bp ts (built @ [info]) fs1 =
        (Inr ((built @ [info]) @ infos), fs')"
      "map b_target infos = filter (compiles E v bp) ts"
      "\<forall>i \<in> set infos. b_path i = bp @ [t_filename (b_target i)] \<and>
        (\<exists>d. fs' (b_path i) = Some (File d))"
      "\<And>q. (\<forall>t \<in> set ts. q \<noteq> bp @ [t_filename t]) \<Longrightarrow> fs' q = fs1 q"
      "\<forall>t \<in> set ts. \<not> compiles E v bp t \<longrightarrow> fs' (bp @ [t_filename t]) = None"
      by blast
    have out: "fs' ?out = Some (File d)"
      using ih(4) [OF out_other] info(4) by simp
    have "build_loop E v bp (t # ts) built fs = (Inr (built @ (info # infos)), fs')"
      using one info(1) ih(1) by simp
    moreover have "map b_target (info # infos) = filter (compiles E v bp) (t # ts)"
      using True info(2) ih(2) by simp
    moreover have "\<forall>i \<in> set (info # infos). b_path i = bp @ [t_filename (b_target i)] \<and>
        (\<exists>d. fs' (b_path i) = Some (File d))"
      using info(2,3) out ih(3) by auto
    moreover have "\<forall>q. (\<forall>t' \<in> set (t # ts). q \<noteq> bp @ [t_filename t']) \<longrightarrow> fs' q = fs q"
      using ih(4) keep by simp
    moreover have "\<forall>t' \<in> set (t # ts). \<not> compiles E v bp t' \<longrightarrow>
        fs' (bp @ [t_filename t']) = None"
      using True ih(5) by simp
    ultimately show ?thesis by blast
  next
    case False
    with res have r: "r = None" "fs1 = fs" by auto
    from Cons.IH [OF d a, of built]
    obtain infos fs' where ih: "build_loop E v bp ts built fs1 = (Inr (built @ infos), fs')"
      "map b_target infos = filter (compiles E v bp) ts"
      "\<forall>i \<in> set infos. b_path i = bp @ [t_filename (b_target i)] \<and>
        (\<exists>d. fs' (b_path i) = Some (File d))"
      "\<And>q. (\<forall>t \<in> set ts. q \<noteq> bp @ [t_filename t]) \<Longrightarrow> fs' q = fs1 q"
      "\<forall>t \<in> set ts. \<not> compiles E v bp t \<longrightarrow> fs' (bp @ [t_filename t]) = None"
      by blast
    have out: "fs' ?out = None"
      using ih(4) [OF out_other] r(2) absent by simp
    have "build_loop E v bp (t # ts) built fs = (Inr (built @ infos), fs')"
      using one r(1) ih(1) by simp
    moreover have "map b_target infos = filter (compiles E v bp) (t # ts)"
      using False ih(2) by simp
    moreover have "\<forall>q. (\<forall>t' \<in> set (t # ts). q \<noteq> bp @ [t_filename t']) \<longrightarrow> fs' q = fs q"
      using ih(4) r(2) by simp
    moreover have "\<forall>t' \<in> set (t # ts). \<not> compiles E v bp t' \<longrightarrow>
        fs' (bp @ [t_filename t']) = None"
      using out ih(5) by simp
    ultimately show ?thesis using ih(3) by blast
  qed
qed

lemma compile_windows_resources_keeps:
  "q \<noteq> [''claracore_windows.syso''] \<Longrightarrow> compile_windows_resources E fs q = fs q"
  "fs [''claracore_windows.syso''] \<noteq> Some Dir \<Longrightarrow>
     compile_windows_resources E fs [''claracore_windows.syso''] \<noteq> Some Dir"
  by (auto simp: compile_windows_resources_def split: option.splits node.splits)

lemma build_binaries_result:
  assumes "distinct (map t_filename ts)" and "clean_project fs"
  shows "\<exists>built fs'. build_binaries E ts v fs = (Inr built, fs') \<and>
     map b_target built = filter (compiles E v BUILD_DIR) ts \<and>
     (\<forall>i \<in> set built. b_path i = BUILD_DIR @ [t_filename (b_target i)] \<and>
        (\<exists>d. fs' (b_path i) = Some (File d))) \<and>
     fs' BUILD_DIR = Some Dir \<and>
     (\<forall>t \<in> set ts. \<not> compiles E v BUILD_DIR t \<longrightarrow>
        fs' (BUILD_DIR @ [t_filename t]) = None) \<and>
     (\<forall>n. fs' (BUILD_DIR @ [n]) \<noteq> Some Dir)"
proof -
  let ?syso = "[''claracore_windows.syso'']"
  define fs0 where "fs0 = compile_windows_resources E fs"
  have below: "fs0 q = fs q" if "prefix BUILD_DIR q" for q
  proof -
    from that obtain r where "q = ''dist'' # r"
      by (auto simp: prefix_def BUILD_DIR_def)
    then have "q \<noteq> ?syso" by simp
    then show ?thesis
      unfolding fs0_def by (rule compile_windows_resources_keeps(1))
  qed
  have fs0: "fs0 BUILD_DIR = Some Dir \<or> (\<forall>q. prefix BUILD_DIR q \<longrightarrow> fs0 q = None)"
    "fs0 ?syso \<noteq> Some Dir"
    using assms(2) below compile_windows_resources_keeps(2) [of fs E]
    by (auto simp: clean_project_def fs0_def)
  define fsA where "fsA = (\<lambda>q. if prefix BUILD_DIR q then None else fs0 q)"
  have A: "(if path_exists fs0 BUILD_DIR then rmtree fs0 BUILD_DIR else Inr fs0) = Inr fsA"
  proof (cases "fs0 BUILD_DIR = Some Dir")
    case True
    then show ?thesis
      by (simp add: path_exists_def rmtree_def fsA_def)
  next
    case False
    with fs0(1) have none: "\<forall>q. prefix BUILD_DIR q \<longrightarrow> fs0 q = None" by simp
    then have "fs0 BUILD_DIR = None" by simp
    moreover have "fs0 = fsA"
      using none by (auto simp: fsA_def)
    ultimately show ?thesis
      by (simp add: path_exists_def BUILD_DIR_def)
  qed
  define fsB where "fsB = fsA(BUILD_DIR \<mapsto> Dir)"
  have B: "mkdir fsA BUILD_DIR True = Inr fsB"
    by (simp add: mkdir_def parents_def BUILD_DIR_def fsA_def fsB_def)
  have absent: "\<forall>t \<in> set ts. fsB (BUILD_DIR @ [t_filename t]) = None"
    by (simp add: fsB_def fsA_def BUILD_DIR_def)
  from build_loop_result [OF assms(1) absent, of E v "[]"]
  obtain built fs3 where loop: "build_loop E v BUILD_DIR ts [] fsB = (Inr built, fs3)"
    and tg: "map b_target built = filter (compiles E v BUILD_DIR) ts"
    and files: "\<forall>i \<in> set built. b_path i = BUILD_DIR @ [t_filename (b_target i)] \<and>
        (\<exists>d. fs3 (b_path i) = Some (File d))"
    and keep: "\<And>q. (\<forall>t \<in> set ts. q \<noteq> BUILD_DIR @ [t_filename t]) \<Longrightarrow> fs3 q = fsB q"
    and failed: "\<forall>t \<in> set ts. \<not> compiles E v BUILD_DIR t \<longrightarrow>
        fs3 (BUILD_DIR @ [t_filename t]) = None"
    by auto
  have "fs3 ?syso = fsB ?syso"
    by (rule keep) (simp add: BUILD_DIR_def)
  then have syso: "fs3 ?syso \<noteq> Some Dir"
    using fs0(2) by (simp add: fsB_def fsA_def BUILD_DIR_def)
  have dist: "fs3 BUILD_DIR = Some Dir"
    using keep [of BUILD_DIR] by (simp add: fsB_def)
  define fs4 where "fs4 = fs3(?syso := None)"
  have C: "(if path_exists fs3 ?syso then unlink fs3 ?syso else Inr fs3) = Inr fs4"
  proof (cases "fs3 ?syso")
    case None
    then have "fs3 = fs4" by (auto simp: fs4_def)
    with None show ?thesis by (simp add: path_exists_def)
  next
    case (Some nd)
    with syso obtain d where "fs3 ?syso = Some (File d)" by (cases nd) auto
    then show ?thesis
      by (simp add: path_exists_def unlink_def fs4_def)
  qed
  have step: "attempt (Inr x) g k = k x"
    for x :: fs and g and k :: "fs \<Rightarrow> (error + binary_info list) \<times> fs"
    by (simp add: attempt_def)
  have run: "build_binaries E ts v fs = (Inr built, fs4)"
    apply (simp only: build_binaries_def Let_def fs0_def [symmetric])
    apply (simp only: A B C loop step prod.case sum.case)
    done
  have same: "fs4 q = fs3 q" if "q \<noteq> ?syso" for q
    using that by (simp add: fs4_def)
  have "\<forall>i \<in> set built. b_path i = BUILD_DIR @ [t_filename (b_target i)] \<and>
        (\<exists>d. fs4 (b_path i) = Some (File d))"
    using files same by (auto simp: BUILD_DIR_def)
  moreover have "fs4 BUILD_DIR = Some Dir"
    using dist same [of BUILD_DIR] by (simp add: BUILD_DIR_def)
  moreover have "\<forall>t \<in> set ts. \<not> compiles E v BUILD_DIR t \<longrightarrow>
        fs4 (BUILD_DIR @ [t_filename t]) = None"
    using failed same by (simp add: BUILD_DIR_def)
  moreover have "fs4 (BUILD_DIR @ [n]) \<noteq> Some Dir" for n
  proof (cases "\<exists>t \<in> set ts. n = t_filename t")
    case True
    then obtain t where t: "t \<in> set ts" "n = t_filename t" by blast
    show ?thesis
    proof (cases "compiles E v BUILD_DIR t")
      case True
      with t(1) have "t \<in> set (map b_target built)" by (simp add: tg)
      then obtain i where "i \<in> set built" "b_target i = t" by auto
      with files t(2) obtain d where "fs3 (BUILD_DIR @ [n]) = Some (File d)" by auto
      then show ?thesis using same [of "BUILD_DIR @ [n]"] by (simp add: BUILD_DIR_def)
    next
      case False
      with failed t have "fs3 (BUILD_DIR @ [n]) = None" by simp
      then show ?thesis using same [of "BUILD_DIR @ [n]"] by (simp add: BUILD_DIR_def)
    qed
  next
    case False
    then have "fs3 (BUILD_DIR @ [n]) = fsB (BUILD_DIR @ [n])"
      by (intro keep) auto
    then have "fs3 (BUILD_DIR @ [n]) = None"
      by (simp add: fsB_def fsA_def BUILD_DIR_def)
    then show ?thesis using same [of "BUILD_DIR @ [n]"] by (simp add: BUILD_DIR_def)
  qed
  ultimately show ?thesis
    using run tg by blast
qed

lemma make_dirs_keeps:
  "make_dirs ds fs = Inr fs' \<Longrightarrow> q \<notin> set ds \<Longrightarrow> fs' q = fs q"
proof (induction ds arbitrary: fs)
  case Nil
  then show ?case by simp
next
  case (Cons d ds)
  then show ?case
    by (cases "fs d") (auto split: node.splits)
qed

lemma mkdir_keeps:
  assumes "mkdir fs p ok = Inr fs'" and "length p < length q"
  shows "fs' q = fs q"
proof -
  from assms(1) obtain fs1 where m: "make_dirs (parents p) fs = Inr fs1"
    and r: "fs' = fs1 \<or> fs' = fs1(p \<mapsto> Dir)"
    by (auto simp: mkdir_def split: sum.splits option.splits node.splits if_splits)
  have "q \<notin> set (parents p)"
    using assms(2) by (auto simp: parents_def)
  with m have "fs1 q = fs q" by (rule make_dirs_keeps)
  moreover have "q \<noteq> p" using assms(2) by auto
  ultimately show ?thesis using r by auto
qed

lemma build_target_script:
  assumes "fs (script_out_path (goos, goarch)) = None"
  shows "(\<exists>e fs'. build_target go goos goarch (script_out_dir (goos, goarch)) fs = (Inl e, fs')) \<or>
     (script_compiles go (goos, goarch) \<and>
      (\<exists>fs'. build_target go goos goarch (script_out_dir (goos, goarch)) fs =
          (Inr (script_out_path (goos, goarch)), fs') \<and>
        (\<forall>q. length q = 3 \<and> q \<noteq> script_out_path (goos, goarch) \<longrightarrow> fs' q = fs q)))"
proof (cases "mkdir fs (script_out_dir (goos, goarch)) True")
  case (Inl e)
  then show ?thesis
    by (simp add: build_target_def attempt_def)
next
  case (Inr fs1)
  let ?dir = "script_out_dir (goos, goarch)" and ?out = "script_out_path (goos, goarch)"
  have len: "length ?dir = 2" "length ?out = 3"
    by (simp_all add: script_out_dir_def script_out_path_def DIST_def)
  have keep: "fs1 q = fs q" if "length q = 3" for q
    using Inr that len by (intro mkdir_keeps [of fs ?dir True fs1]) simp_all
  have absent: "fs1 ?out = None"
    using keep [of ?out] len assms by simp
  have out: "?dir @ [if goos = ''windows'' then ''claracore.exe'' else ''claracore''] = ?out"
    by (simp add: script_out_path_def)
  show ?thesis
  proof (cases "go [''go build -o '' @ path_str ?out @ '' .'']
             [''GOOS'' \<mapsto> goos, ''GOARCH'' \<mapsto> goarch, ''CGO_ENABLED'' \<mapsto> ''0'']")
    case (CompileError rc)
    then show ?thesis
      using Inr absent len(2)
      by (cases "rc = 0")
         (auto simp: build_target_def attempt_def Let_def out go_run_def path_exists_def)
  next
    case NoOutput
    then show ?thesis
      using Inr absent len(2)
      by (auto simp: build_target_def attempt_def Let_def out go_run_def path_exists_def)
  next
    case (Binary b)
    then have "build_target go goos goarch ?dir fs = (Inr ?out, fs1(?out \<mapsto> File b))"
      using Inr by (simp add: build_target_def attempt_def Let_def out go_run_def path_exists_def)
    moreover have "script_compiles go (goos, goarch)"
      using Binary by (simp add: script_compiles_def)
    ultimately show ?thesis
      using keep by auto
  qed
qed

lemma build_targets_failure:
  assumes "distinct (map script_out_path targets)"
    and "\<forall>t \<in> set targets. fs (script_out_path t) = None"
    and "\<exists>t \<in> set targets. \<not> script_compiles go t"
  shows "\<exists>e fs'. build_targets go targets builds fs = (Inl e, fs')"
  using assms
proof (induction targets arbitrary: builds fs)
  case Nil
  then show ?case by simp
next
  case (Cons t targets)
  obtain goos goarch where t: "t = (goos, goarch)" by (cases t)
  have unfold: "build_targets go (t # targets) builds fs =
      (case build_target go goos goarch (script_out_dir (goos, goarch)) fs of
         (Inl e, fs1) \<Rightarrow> (Inl e, fs1)
       | (Inr bin_path, fs1) \<Rightarrow>
           build_targets go targets (builds @ [(goos, goarch, bin_path)]) fs1)"
    by (simp add: t script_out_dir_def)
  from Cons.prems(2) t have "fs (script_out_path (goos, goarch)) = None" by simp
  from this build_target_script [of fs goos goarch go]
  consider (fail) e fs' where
      "build_target go goos goarch (script_out_dir (goos, goarch)) fs = (Inl e, fs')"
    | (ok) fs' where "script_compiles go (goos, goarch)"
      "build_target go goos goarch (script_out_dir (goos, goarch)) fs =
          (Inr (script_out_path (goos, goarch)), fs')"
      "\<And>q. length q = 3 \<Longrightarrow> q \<noteq> script_out_path (goos, goarch) \<Longrightarrow> fs' q = fs q"
    by blast
  then show ?case
  proof cases
    case fail
    then show ?thesis
      unfolding unfold by simp
  next
    case ok
    have len: "length (script_out_path t') = 3" for t'
      by (simp add: script_out_path_def script_out_dir_def DIST_def)
    have "\<forall>t' \<in> set targets. fs' (script_out_path t') = None"
    proof
      fix t' assume t': "t' \<in> set targets"
      then have "script_out_path t' \<noteq> script_out_path (goos, goarch)"
        using Cons.prems(1) t by (auto simp: image_iff)
      then have "fs' (script_out_path t') = fs (script_out_path t')"
        using ok(3) len by simp
      with Cons.prems(2) t' show "fs' (script_out_path t') = None" by simp
    qed
    moreover have "distinct (map script_out_path targets)"
      using Cons.prems(1) by simp
    moreover have "\<exists>t \<in> set targets. \<not> script_compiles go t"
      using Cons.prems(3) ok(1) t by auto
    ultimately have "\<exists>e fs''. build_targets go targets
        (builds @ [(goos, goarch, script_out_path (goos, goarch))]) fs' = (Inl e, fs'')"
      by (intro Cons.IH)
    then show ?thesis
      unfolding unfold using ok(2) by simp
  qed
qed

lemma build_ui_keeps:
  assumes "length q = 3"
  shows "snd (build_ui X fs) q = fs q"
proof -
  have "q \<noteq> [''ui'', ''node_modules'']" "q \<noteq> [''proxy'', ''ui_dist'']"
    using assms by auto
  then show ?thesis
    by (simp add: build_ui_def attempt_def Let_def)
qed

lemma script_build_failure:
  assumes "fs DIST \<noteq> None \<or> (\<forall>q. prefix DIST q \<longrightarrow> fs q = None)"
    and "\<exists>t \<in> set script_targets. \<not> script_compiles (x_go_build X) t"
  shows "\<exists>e fs'. script_build X args fs = (Inl e, fs')"
proof -
  define r0 where "r0 = (if path_exists fs DIST then rmtree fs DIST else Inr fs)"
  show ?thesis
  proof (cases r0)
    case (Inl e)
    then show ?thesis
      by (simp add: script_build_def attempt_def r0_def [symmetric])
  next
    case (Inr fsA)
    have below: "fsA q = None" if "prefix DIST q" for q
    proof (cases "fs DIST")
      case None
      with assms(1) that have "fs q = None" by simp
      moreover have "fsA = fs"
        using None Inr by (simp add: r0_def path_exists_def DIST_def)
      ultimately show ?thesis by simp
    next
      case (Some nd)
      then have "rmtree fs DIST = Inr fsA"
        using Inr by (simp add: r0_def path_exists_def)
      then show ?thesis
        using that by (auto simp: rmtree_def split: option.splits node.splits)
    qed
    then have "fsA DIST = None" by simp
    then have B: "mkdir fsA DIST False = Inr (fsA(DIST \<mapsto> Dir))"
      by (simp add: mkdir_def parents_def DIST_def)
    obtain r3 fs3 where ui: "build_ui X (fsA(DIST \<mapsto> Dir)) = (r3, fs3)"
      by (cases "build_ui X (fsA(DIST \<mapsto> Dir))")
    have start: "script_build X args fs =
        (case r3 of
           Inl e \<Rightarrow> (Inl e, fs3)
         | Inr u \<Rightarrow>
            (case build_targets (x_go_build X) script_targets [] fs3 of
               (Inl e, fs4) \<Rightarrow> (Inl e, fs4)
             | (Inr builds, fs4) \<Rightarrow> package_builds (x_archive X) (s_tag args) builds [] fs4))"
      using Inr B ui by (simp add: script_build_def attempt_def r0_def [symmetric])
    show ?thesis
    proof (cases r3)
      case (Inl e)
      with start show ?thesis by simp
    next
      case r3: (Inr u)
      have "\<forall>t \<in> set script_targets. fs3 (script_out_path t) = None"
      proof
        fix t
        have len: "length (script_out_path t) = 3" and pre: "prefix DIST (script_out_path t)"
          by (simp_all add: script_out_path_def script_out_dir_def DIST_def)
        have "fs3 (script_out_path t) = (fsA(DIST \<mapsto> Dir)) (script_out_path t)"
          using build_ui_keeps [OF len, of X "fsA(DIST \<mapsto> Dir)"] ui by simp
        also have "\<dots> = None"
          using below [OF pre] len by (auto simp: DIST_def)
        finally show "fs3 (script_out_path t) = None" .
      qed
      moreover have "distinct (map script_out_path script_targets)"
        by (simp add: script_targets_def script_out_path_def script_out_dir_def)
      ultimately obtain e fs4 where
        "build_targets (x_go_build X) script_targets [] fs3 = (Inl e, fs4)"
        using build_targets_failure [OF _ _ assms(2), of fs3 "[]"] by blast
      with start r3 show ?thesis by simp
    qed
  qed
qed

lemma script_main_build_failure:
  assumes "w_fs W DIST \<noteq> None \<or> (\<forall>q. prefix DIST q \<longrightarrow> w_fs W q = None)"
    and "\<exists>t \<in> set script_targets. \<not> script_compiles (x_go_build X) t"
  shows "fst (script_main X args W) = 1 \<and> w_sent (snd (script_main X args W)) = w_sent W"
proof -
  from script_build_failure [OF assms, of args]
  obtain e fs' where "script_build X args (w_fs W) = (Inl e, fs')" by blast
  then show ?thesis
    by (simp add: script_main_def Let_def split: sum.splits)
qed

lemma release_run_after_build:
  assumes "validate_version (a_version args)" and "check_prerequisites E (w_fs W)"
    and "github_token (a_token args) (w_fs W) = Inr tok"
    and "build_binaries E ts (a_version args) (w_fs W) = (Inr built, fs')"
  shows "release_run E ts args W =
     (if built = [] then (1, W\<lparr>w_fs := fs'\<rparr>)
      else if a_build_only args then (0, W\<lparr>w_fs := fs'\<rparr>)
      else (case create_github_release E tok (a_version args) built (a_draft args)
                   (W\<lparr>w_fs := fs'\<rparr>) of
              (success, W1) \<Rightarrow> (if success then 0 else 1, W1)))"
  using assms by (simp add: release_run_def)

text \<open>
  C2, amended: in \<^verbatim>\<open>release.py\<close>, for every list of targets with distinct output names,
  built in a clean project directory, \<open>build_binaries\<close> returns, and the artifacts are
  exactly the targets the compiler builds, in order: a target whose compile step fails
  or leaves no output is left out, leaves no file, and the loop goes on to the targets
  after it. The run exits with status 1 before any request is sent when no target was
  built; otherwise it returns 0 in build-only mode or goes on to publish.
  In \<^verbatim>\<open>scripts/release.py\<close>, a target that does not build ends the run with status 1
  and nothing is sent.
\<close>

theorem build_failure_excludes_only_target:
  assumes "distinct (map t_filename targets)" and "clean_project (w_fs W)"
    and "validate_version (a_version args)" and "check_prerequisites E (w_fs W)"
    and "github_token (a_token args) (w_fs W) = Inr tok"
  shows "(\<exists>built fs'.
      build_binaries E targets (a_version args) (w_fs W) = (Inr built, fs')
      \<and> map b_target built = filter (compiles E (a_version args) BUILD_DIR) targets
      \<and> (\<forall>i \<in> set built. \<exists>d. fs' (BUILD_DIR @ [t_filename (b_target i)]) = Some (File d))
      \<and> (\<forall>t \<in> set targets. \<not> compiles E (a_version args) BUILD_DIR t \<longrightarrow>
            fs' (BUILD_DIR @ [t_filename t]) = None)
      \<and> release_run E targets args W =
          (if built = [] then (1, W\<lparr>w_fs := fs'\<rparr>)
           else if a_build_only args then (0, W\<lparr>w_fs := fs'\<rparr>)
           else (case create_github_release E tok (a_version args) built (a_draft args)
                        (W\<lparr>w_fs := fs'\<rparr>) of
                   (success, W1) \<Rightarrow> (if success then 0 else 1, W1))))
    \<and> ((w_fs V DIST \<noteq> None \<or> (\<forall>q. prefix DIST q \<longrightarrow> w_fs V q = None)) \<and>
         (\<exists>t \<in> set script_targets. \<not> script_compiles (x_go_build X) t) \<longrightarrow>
         fst (script_main X sargs V) = 1 \<and> w_sent (snd (script_main X sargs V)) = w_sent V)"
proof -
  from build_binaries_result [OF assms(1,2), of E "a_version args"]
  obtain built fs' where b: "build_binaries E targets (a_version args) (w_fs W) = (Inr built, fs')"
    "map b_target built = filter (compiles E (a_version args) BUILD_DIR) targets"
    "\<forall>i \<in> set built. b_path i = BUILD_DIR @ [t_filename (b_target i)] \<and>
        (\<exists>d. fs' (b_path i) = Some (File d))"
    "\<forall>t \<in> set targets. \<not> compiles E (a_version args) BUILD_DIR t \<longrightarrow>
        fs' (BUILD_DIR @ [t_filename t]) = None"
    by blast
  have "\<forall>i \<in> set built. \<exists>d. fs' (BUILD_DIR @ [t_filename (b_target i)]) = Some (File d)"
    using b(3) by auto
  moreover note release_run_after_build [OF assms(3,4,5) b(1)] b(1,2,4)
  moreover have "(w_fs V DIST \<noteq> None \<or> (\<forall>q. prefix DIST q \<longrightarrow> w_fs V q = None)) \<and>
         (\<exists>t \<in> set script_targets. \<not> script_compiles (x_go_build X) t) \<longrightarrow>
         fst (script_main X sargs V) = 1 \<and> w_sent (snd (script_main X sargs V)) = w_sent V"
    using script_main_build_failure [of V X sargs] by blast
  ultimately show ?thesis by blast
qed

lemmas script_eval = script_main_def script_build_def attempt_def path_exists_def DIST_def
  mkdir_def parents_def build_ui_def script_targets_def build_target_def go_run_def Let_def
  rmtree_def ensure_tools_def env_token_def example_script_env_def example_script_args_def
  empty_fs_def

text \<open>
  C2, as stated, fails for \<^verbatim>\<open>scripts/release.py\<close>: when the first target (darwin) does not
  compile, the run exits with status 1 and the Linux target, which would compile, is
  never built.
\<close>

theorem script_run_aborts_at_first_failure:
  "fst (script_main (example_script_env\<lparr>x_go_build := go_only_linux\<rparr>) example_script_args
          \<lparr>w_fs = empty_fs, w_sent = []\<rparr>) = 1
   \<and> script_compiles go_only_linux (''linux'', ''amd64'')
   \<and> w_fs (snd (script_main (example_script_env\<lparr>x_go_build := go_only_linux\<rparr>)
          example_script_args \<lparr>w_fs = empty_fs, w_sent = []\<rparr>))
        [''dist'', ''build-linux-amd64'', ''claracore''] = None"
  by (simp add: script_eval go_only_linux_def script_compiles_def)

theorem build_failure_excludes_only_target_witness:
  "distinct (map t_filename BUILD_TARGETS) \<and> clean_project project_fs
   \<and> validate_version ''v1.0.0'' \<and> check_prerequisites example_release_env project_fs
   \<and> (\<exists>built fs'.
        build_binaries example_release_env BUILD_TARGETS ''v1.0.0'' project_fs = (Inr built, fs')
      \<and> map t_filename (map b_target built) =
          [''claracore-linux-amd64'', ''claracore-linux-arm64'', ''claracore-darwin-amd64'',
           ''claracore-darwin-arm64'']
      \<and> fs' [''dist'', ''claracore-windows-amd64.exe''] = None
      \<and> release_run example_release_env BUILD_TARGETS
            (example_release_args\<lparr>a_build_only := True\<rparr>)
            \<lparr>w_fs = project_fs, w_sent = []\<rparr> = (0, \<lparr>w_fs = fs', w_sent = []\<rparr>))
   \<and> fst (script_main (example_script_env\<lparr>x_go_build := go_only_linux\<rparr>)
          example_script_args \<lparr>w_fs = empty_fs, w_sent = []\<rparr>) = 1"
proof -
  let ?E = example_release_env and ?args = "example_release_args\<lparr>a_build_only := True\<rparr>"
  let ?W = "\<lparr>w_fs = project_fs, w_sent = []\<rparr>"
  let ?X = "example_script_env\<lparr>x_go_build := go_only_linux\<rparr>"
  let ?V = "\<lparr>w_fs = empty_fs, w_sent = []\<rparr>"
  have 1: "distinct (map t_filename BUILD_TARGETS)"
    by (simp add: BUILD_TARGETS_def)
  have 2: "clean_project (w_fs ?W)"
    by (auto simp: clean_project_def project_fs_def BUILD_DIR_def prefix_def)
  have 3: "validate_version (a_version ?args)"
    by (simp add: example_release_args_def validate_version_def str_startswith_def
        str_split_def)
  have 4: "check_prerequisites ?E (w_fs ?W)"
    by (simp add: check_prerequisites_def example_release_env_def project_fs_def
        path_exists_def)
  have 5: "github_token (a_token ?args) (w_fs ?W) = Inr ''tok''"
    by (simp add: github_token_def example_release_args_def)
  have f: "filter (compiles ?E (a_version ?args) BUILD_DIR) BUILD_TARGETS = take 4 BUILD_TARGETS"
    by (simp add: BUILD_TARGETS_def compiles_def example_release_env_def go_no_windows_def
        build_env_def)
  have w: "\<not> compiles ?E (a_version ?args) BUILD_DIR (BUILD_TARGETS ! 4)"
    "BUILD_TARGETS ! 4 \<in> set BUILD_TARGETS"
    "BUILD_DIR @ [t_filename (BUILD_TARGETS ! 4)] = [''dist'', ''claracore-windows-amd64.exe'']"
    by (simp_all add: BUILD_TARGETS_def compiles_def example_release_env_def go_no_windows_def
        build_env_def BUILD_DIR_def)
  have s: "w_fs ?V DIST \<noteq> None \<or> (\<forall>q. prefix DIST q \<longrightarrow> w_fs ?V q = None)"
    "\<exists>t \<in> set script_targets. \<not> script_compiles (x_go_build ?X) t"
    by (simp_all add: empty_fs_def script_targets_def script_compiles_def go_only_linux_def)
  from build_failure_excludes_only_target [OF 1 2 3 4 5, of ?V ?X example_script_args]
  obtain built fs' where
    b: "build_binaries ?E BUILD_TARGETS (a_version ?args) (w_fs ?W) = (Inr built, fs')"
      "map b_target built = filter (compiles ?E (a_version ?args) BUILD_DIR) BUILD_TARGETS"
      "\<forall>t \<in> set BUILD_TARGETS. \<not> compiles ?E (a_version ?args) BUILD_DIR t \<longrightarrow>
            fs' (BUILD_DIR @ [t_filename t]) = None"
      "release_run ?E BUILD_TARGETS ?args ?W =
          (if built = [] then (1, ?W\<lparr>w_fs := fs'\<rparr>)
           else if a_build_only ?args then (0, ?W\<lparr>w_fs := fs'\<rparr>)
           else (case create_github_release ?E ''tok'' (a_version ?args) built (a_draft ?args)
                        (?W\<lparr>w_fs := fs'\<rparr>) of
                   (success, W1) \<Rightarrow> (if success then 0 else 1, W1)))"
    and sm: "fst (script_main ?X example_script_args ?V) = 1"
    using s by blast
  have names: "map t_filename (map b_target built) =
          [''claracore-linux-amd64'', ''claracore-linux-arm64'', ''claracore-darwin-amd64'',
           ''claracore-darwin-arm64'']"
    unfolding b(2) f by (simp add: BUILD_TARGETS_def)
  then have ne: "built \<noteq> []" by auto
  have win: "fs' [''dist'', ''claracore-windows-amd64.exe''] = None"
    using b(3) w by metis
  have run: "release_run ?E BUILD_TARGETS ?args ?W = (0, \<lparr>w_fs = fs', w_sent = []\<rparr>)"
    using b(4) ne by (simp add: example_release_args_def)
  have v: "a_version ?args = ''v1.0.0''" "w_fs ?W = project_fs"
    by (simp_all add: example_release_args_def)
  have "\<exists>built fs'.
        build_binaries example_release_env BUILD_TARGETS ''v1.0.0'' project_fs = (Inr built, fs')
      \<and> map t_filename (map b_target built) =
          [''claracore-linux-amd64'', ''claracore-linux-arm64'', ''claracore-darwin-amd64'',
           ''claracore-darwin-arm64'']
      \<and> fs' [''dist'', ''claracore-windows-amd64.exe''] = None
      \<and> release_run example_release_env BUILD_TARGETS
            (example_release_args\<lparr>a_build_only := True\<rparr>)
            \<lparr>w_fs = project_fs, w_sent = []\<rparr> = (0, \<lparr>w_fs = fs', w_sent = []\<rparr>)"
    using b(1) names win run unfolding v
    by (intro exI [of _ built] exI [of _ fs']) simp
  with 1 2 3 4 sm show ?thesis
    unfolding v by simp
qed

section \<open>A run with one failed target\<close>

lemma upload_asset_accepting:
  assumes "\<forall>s r. \<exists>j. R s r = Inr j" and "fs p = Some (File d)"
  shows "upload_asset R token release p n ct fs sent =
     (Inr (), sent @ [UploadAsset token (case release ''upload_url'' of Some u \<Rightarrow> u | None \<Rightarrow> [])
                        n ct d])"
proof -
  from assms(1) obtain j where
    "R sent (UploadAsset token (case release ''upload_url'' of Some u \<Rightarrow> u | None \<Rightarrow> [])
                        n ct d) = Inr j"
    by blast
  then show ?thesis
    using assms(2) by (simp add: upload_asset_def read_bytes_def urlopen_def)
qed

lemma upload_binaries_accepting:
  assumes "\<forall>s r. \<exists>j. R s r = Inr j"
    and "\<forall>b \<in> set bs. \<exists>d. fs (b_path b) = Some (File d)"
  shows "upload_binaries R token release bs fs sent =
     (Inr (), sent @ map (binary_request token release fs) bs)"
  using assms(2)
proof (induction bs arbitrary: sent)
  case Nil
  then show ?case by simp
next
  case (Cons b bs)
  then obtain d where d: "fs (b_path b) = Some (File d)" by auto
  have "upload_asset R token release (b_path b) (t_filename (b_target b))
      ''application/octet-stream'' fs sent = (Inr (), sent @ [binary_request token release fs b])"
    using upload_asset_accepting [of R fs "b_path b" d token release "t_filename (b_target b)"
        "''application/octet-stream''" sent] assms(1) d
    by (simp add: binary_request_def)
  then show ?case
    using Cons by simp
qed

lemma release_steps_accepting:
  assumes accept: "\<forall>s r. \<exists>j. e_remote E s r = Inr j"
    and files: "\<forall>b \<in> set bs. \<exists>d. w_fs W (b_path b) = Some (File d)"
    and dist: "w_fs W BUILD_DIR = Some Dir"
    and cp: "w_fs W (BUILD_DIR @ [''checksums.txt'']) \<noteq> Some Dir"
  shows "\<exists>W1 release. release_steps E token v bs draft W = (Inr (), W1) \<and>
     (\<forall>b \<in> set bs. binary_request token release (w_fs W) b \<in> set (w_sent W1))"
proof -
  let ?R = "e_remote E" and ?fs = "w_fs W" and ?s0 = "w_sent W"
  let ?payload = "release_payload_of E v bs draft"
  let ?get = "GetRepo token REPO_SLUG" and ?create = "CreateRelease token REPO_SLUG ?payload"
  let ?cp = "BUILD_DIR @ [''checksums.txt'']"
  from accept obtain repo where repo: "?R ?s0 ?get = Inr repo" by blast
  from accept obtain release where rel: "?R (?s0 @ [?get]) ?create = Inr release" by blast
  let ?s3 = "(?s0 @ [?get, ?create]) @ map (binary_request token release ?fs) bs"
  have ub: "upload_binaries ?R token release bs ?fs (?s0 @ [?get, ?create]) = (Inr (), ?s3)"
    using accept files by (rule upload_binaries_accepting)
  let ?fs1 = "?fs(?cp \<mapsto> File (checksums_content v bs))"
  have wt: "write_text ?fs ?cp (checksums_content v bs) = Inr ?fs1"
    using dist cp by (simp add: write_text_def is_dir_def)
  have ua: "upload_asset ?R token release ?cp ''checksums.txt'' ''text/plain'' ?fs1 ?s3 =
      (Inr (), ?s3 @ [manifest_request token release v bs])"
    using upload_asset_accepting [of ?R ?fs1 ?cp "checksums_content v bs" token release
        "''checksums.txt''" "''text/plain''" ?s3] accept
    by (simp add: manifest_request_def)
  have dr: "defender_reminder E bs ?fs1 = Inr ()"
  proof (cases "filter (\<lambda>b. t_goos (b_target b) = ''windows'') bs")
    case Nil
    then show ?thesis by (simp add: defender_reminder_def)
  next
    case (Cons b rest)
    then have "b \<in> set (filter (\<lambda>b. t_goos (b_target b) = ''windows'') bs)"
      by simp
    then have "b \<in> set bs" by simp
    with files obtain d where "?fs (b_path b) = Some (File d)" by blast
    then obtain d' where "?fs1 (b_path b) = Some (File d')"
      by (cases "b_path b = ?cp") auto
    then have "\<exists>h. calculate_sha256 (e_hashlib E) ?fs1 (b_path b) = Inr h"
      by (simp add: calculate_sha256_def)
    with Cons show ?thesis by (auto simp: defender_reminder_def)
  qed
  have "release_steps E token v bs draft W =
      (Inr (), \<lparr>w_fs = ?fs1, w_sent = ?s3 @ [manifest_request token release v bs]\<rparr>)"
    using repo rel ub wt ua dr
    by (simp add: release_steps_def urlopen_def Let_def release_payload_of_def)
  then show ?thesis
    by (intro exI [of _ "\<lparr>w_fs = ?fs1, w_sent = ?s3 @ [manifest_request token release v bs]\<rparr>"]
        exI [of _ release]) simp
qed

lemma create_github_release_accepting:
  assumes "\<forall>s r. \<exists>j. e_remote E s r = Inr j"
    and "\<forall>b \<in> set bs. \<exists>d. w_fs W (b_path b) = Some (File d)"
    and "w_fs W BUILD_DIR = Some Dir"
    and "w_fs W (BUILD_DIR @ [''checksums.txt'']) \<noteq> Some Dir"
  shows "\<exists>W1 release. create_github_release E token v bs draft W = (True, W1) \<and>
     (\<forall>b \<in> set bs. binary_request token release (w_fs W) b \<in> set (w_sent W1))"
proof -
  from release_steps_accepting [OF assms, of token v draft]
  obtain W1 release where "release_steps E token v bs draft W = (Inr (), W1)"
    "\<forall>b \<in> set bs. binary_request token release (w_fs W) b \<in> set (w_sent W1)"
    by blast
  then show ?thesis
    by (intro exI [of _ W1] exI [of _ release]) (simp add: create_github_release_def)
qed

lemma partial_build_run:
  assumes "t_filename A \<noteq> t_filename B" and "clean_project (w_fs W)"
    and "validate_version (a_version args)" and "check_prerequisites E (w_fs W)"
    and "github_token (a_token args) (w_fs W) = Inr tok"
    and "compiles E (a_version args) BUILD_DIR A"
    and "\<not> compiles E (a_version args) BUILD_DIR B"
  shows "\<exists>info d fs'.
      build_binaries E [A, B] (a_version args) (w_fs W) = (Inr [info], fs')
      \<and> b_target info = A \<and> b_path info = BUILD_DIR @ [t_filename A]
      \<and> fs' (BUILD_DIR @ [t_filename A]) = Some (File d)
      \<and> fs' (BUILD_DIR @ [t_filename B]) = None
      \<and> (a_build_only args \<longrightarrow> release_run E [A, B] args W = (0, W\<lparr>w_fs := fs'\<rparr>))
      \<and> (\<not> a_build_only args \<longrightarrow>
            fst (release_run E [A, B] args W) =
              (if fst (create_github_release E tok (a_version args) [info] (a_draft args)
                         (W\<lparr>w_fs := fs'\<rparr>)) then 0 else 1))
      \<and> (\<not> a_build_only args \<and> (\<forall>s r. \<exists>j. e_remote E s r = Inr j) \<longrightarrow>
            fst (release_run E [A, B] args W) = 0 \<and>
            (\<exists>url. UploadAsset tok url (t_filename A) ''application/octet-stream'' d
                \<in> set (w_sent (snd (release_run E [A, B] args W)))))"
proof -
  let ?v = "a_version args"
  have dist: "distinct (map t_filename [A, B])"
    using assms(1) by simp
  from build_binaries_result [OF dist assms(2), of E ?v]
  obtain built fs' where b: "build_binaries E [A, B] ?v (w_fs W) = (Inr built, fs')"
    and tg: "map b_target built = filter (compiles E ?v BUILD_DIR) [A, B]"
    and files: "\<forall>i \<in> set built. b_path i = BUILD_DIR @ [t_filename (b_target i)] \<and>
        (\<exists>d. fs' (b_path i) = Some (File d))"
    and dir: "fs' BUILD_DIR = Some Dir"
    and failed: "\<forall>t \<in> set [A, B]. \<not> compiles E ?v BUILD_DIR t \<longrightarrow>
        fs' (BUILD_DIR @ [t_filename t]) = None"
    and nodir: "\<forall>n. fs' (BUILD_DIR @ [n]) \<noteq> Some Dir"
    by blast
  from tg assms(6,7) have "map b_target built = [A]" by simp
  then obtain info where info: "built = [info]" "b_target info = A"
    by (cases built) auto
  from files info obtain d where d: "b_path info = BUILD_DIR @ [t_filename A]"
    "fs' (BUILD_DIR @ [t_filename A]) = Some (File d)"
    by auto
  from failed assms(7) have nb: "fs' (BUILD_DIR @ [t_filename B]) = None" by simp
  let ?W' = "W\<lparr>w_fs := fs'\<rparr>"
  have run: "release_run E [A, B] args W =
     (if a_build_only args then (0, ?W')
      else (case create_github_release E tok ?v [info] (a_draft args) ?W' of
              (success, W1) \<Rightarrow> (if success then 0 else 1, W1)))"
    using release_run_after_build [OF assms(3,4,5) b] info(1) by simp
  have r1: "a_build_only args \<longrightarrow> release_run E [A, B] args W = (0, ?W')"
    using run by simp
  have r2: "\<not> a_build_only args \<longrightarrow>
            fst (release_run E [A, B] args W) =
              (if fst (create_github_release E tok ?v [info] (a_draft args) ?W') then 0 else 1)"
    using run by (simp split: prod.splits)
  have r3: "\<not> a_build_only args \<and> (\<forall>s r. \<exists>j. e_remote E s r = Inr j) \<longrightarrow>
            fst (release_run E [A, B] args W) = 0 \<and>
            (\<exists>url. UploadAsset tok url (t_filename A) ''application/octet-stream'' d
                \<in> set (w_sent (snd (release_run E [A, B] args W))))"
  proof
    assume a: "\<not> a_build_only args \<and> (\<forall>s r. \<exists>j. e_remote E s r = Inr j)"
    have f: "\<forall>b \<in> set [info]. \<exists>d. w_fs ?W' (b_path b) = Some (File d)"
      using d by simp
    have g: "w_fs ?W' BUILD_DIR = Some Dir"
      "w_fs ?W' (BUILD_DIR @ [''checksums.txt'']) \<noteq> Some Dir"
      using dir nodir by simp_all
    from a have acc: "\<forall>s r. \<exists>j. e_remote E s r = Inr j" by simp
    from create_github_release_accepting [OF acc f g, of tok ?v "a_draft args"]
    obtain W1 release where c: "create_github_release E tok ?v [info] (a_draft args) ?W' = (True, W1)"
      "binary_request tok release fs' info \<in> set (w_sent W1)"
      by auto
    have "binary_request tok release fs' info =
        UploadAsset tok (case release ''upload_url'' of Some u \<Rightarrow> u | None \<Rightarrow> [])
          (t_filename A) ''application/octet-stream'' d"
      using d info(2) by (simp add: binary_request_def)
    with c a run show "fst (release_run E [A, B] args W) = 0 \<and>
            (\<exists>url. UploadAsset tok url (t_filename A) ''application/octet-stream'' d
                \<in> set (w_sent (snd (release_run E [A, B] args W))))"
      by auto
  qed
  show ?thesis
    using b info d nb r1 r2 r3
    by (intro exI [of _ info] exI [of _ d] exI [of _ fs']) simp
qed

lemma example_partial_run:
  "t_filename target_linux \<noteq> t_filename target_windows"
  "clean_project (w_fs \<lparr>w_fs = project_fs, w_sent = []\<rparr>)"
  "validate_version (a_version example_release_args)"
  "check_prerequisites accepting_env (w_fs \<lparr>w_fs = project_fs, w_sent = []\<rparr>)"
  "github_token (a_token example_release_args) (w_fs \<lparr>w_fs = project_fs, w_sent = []\<rparr>) =
     Inr ''tok''"
  "compiles accepting_env (a_version example_release_args) BUILD_DIR target_linux"
  "\<not> compiles accepting_env (a_version example_release_args) BUILD_DIR target_windows"
  "\<not> a_build_only example_release_args"
  "\<forall>s r. \<exists>j. e_remote accepting_env s r = Inr j"
proof -
  show "clean_project (w_fs \<lparr>w_fs = project_fs, w_sent = []\<rparr>)"
    by (auto simp: clean_project_def project_fs_def BUILD_DIR_def prefix_def)
qed (simp_all add: target_linux_def target_windows_def example_release_args_def
    validate_version_def str_startswith_def str_split_def check_prerequisites_def
    accepting_env_def example_release_env_def project_fs_def path_exists_def github_token_def
    compiles_def go_no_windows_def build_env_def remote_has_release_def)

text \<open>
  C3, as stated, fails: with the Linux target built, the Windows target failing and a
  remote that accepts every request, \<^verbatim>\<open>release.py\<close> exits with status 0.
\<close>

theorem partial_build_exits_zero:
  "fst (release_run accepting_env [target_linux, target_windows] example_release_args
          \<lparr>w_fs = project_fs, w_sent = []\<rparr>) = 0
   \<and> compiles accepting_env ''v1.0.0'' BUILD_DIR target_linux
   \<and> \<not> compiles accepting_env ''v1.0.0'' BUILD_DIR target_windows"
proof -
  have v: "a_version example_release_args = ''v1.0.0''"
    by (simp add: example_release_args_def)
  from partial_build_run [OF example_partial_run(1-7)] example_partial_run(8,9)
  have "fst (release_run accepting_env [target_linux, target_windows] example_release_args
          \<lparr>w_fs = project_fs, w_sent = []\<rparr>) = 0"
    by blast
  with example_partial_run(6,7) show ?thesis
    unfolding v by simp
qed

text \<open>
  C3, amended: for the targets \<open>[A, B]\<close> of \<^verbatim>\<open>release.py\<close> with \<open>A\<close> built and \<open>B\<close> failing
  to compile, the artifacts are exactly \<open>A\<close>'s binary, and \<open>B\<close> leaves no file. In
  build-only mode the run exits with status 0; otherwise the exit status is 0 exactly
  when publishing succeeds, and with a remote that accepts every request it is 0 and
  \<open>A\<close>'s binary is uploaded. The failed target alone does not make the status non-zero.
\<close>

theorem partial_build_exit_status:
  assumes "t_filename A \<noteq> t_filename B" and "clean_project (w_fs W)"
    and "validate_version (a_version args)" and "check_prerequisites E (w_fs W)"
    and "github_token (a_token args) (w_fs W) = Inr tok"
    and "compiles E (a_version args) BUILD_DIR A"
    and "\<not> compiles E (a_version args) BUILD_DIR B"
  shows "\<exists>info d fs'.
      build_binaries E [A, B] (a_version args) (w_fs W) = (Inr [info], fs')
      \<and> b_target info = A \<and> b_path info = BUILD_DIR @ [t_filename A]
      \<and> fs' (BUILD_DIR @ [t_filename A]) = Some (File d)
      \<and> fs' (BUILD_DIR @ [t_filename B]) = None
      \<and> (a_build_only args \<longrightarrow> release_run E [A, B] args W = (0, W\<lparr>w_fs := fs'\<rparr>))
      \<and> (\<not> a_build_only args \<longrightarrow>
            fst (release_run E [A, B] args W) =
              (if fst (create_github_release E tok (a_version args) [info] (a_draft args)
                         (W\<lparr>w_fs := fs'\<rparr>)) then 0 else 1))
      \<and> (\<not> a_build_only args \<and> (\<forall>s r. \<exists>j. e_remote E s r = Inr j) \<longrightarrow>
            fst (release_run E [A, B] args W) = 0 \<and>
            (\<exists>url. UploadAsset tok url (t_filename A) ''application/octet-stream'' d
                \<in> set (w_sent (snd (release_run E [A, B] args W)))))"
  using assms by (rule partial_build_run)

theorem partial_build_exit_status_witness:
  "t_filename target_linux \<noteq> t_filename target_windows
   \<and> clean_project project_fs
   \<and> validate_version ''v1.0.0''
   \<and> check_prerequisites accepting_env project_fs
   \<and> compiles accepting_env ''v1.0.0'' BUILD_DIR target_linux
   \<and> \<not> compiles accepting_env ''v1.0.0'' BUILD_DIR target_windows
   \<and> (\<exists>info d fs'.
        build_binaries accepting_env [target_linux, target_windows] ''v1.0.0'' project_fs =
          (Inr [info], fs')
      \<and> b_target info = target_linux
      \<and> fs' [''dist'', ''claracore-linux-amd64''] = Some (File d)
      \<and> fs' [''dist'', ''claracore-windows-amd64.exe''] = None
      \<and> (\<exists>url. UploadAsset ''tok'' url ''claracore-linux-amd64'' ''application/octet-stream'' d
            \<in> set (w_sent (snd (release_run accepting_env [target_linux, target_windows]
                    example_release_args \<lparr>w_fs = project_fs, w_sent = []\<rparr>)))))"
proof -
  have v: "a_version example_release_args = ''v1.0.0''"
    "w_fs \<lparr>w_fs = project_fs, w_sent = []\<rparr> = project_fs"
    "BUILD_DIR @ [t_filename target_linux] = [''dist'', ''claracore-linux-amd64'']"
    "BUILD_DIR @ [t_filename target_windows] = [''dist'', ''claracore-windows-amd64.exe'']"
    "t_filename target_linux = ''claracore-linux-amd64''"
    by (simp_all add: example_release_args_def BUILD_DIR_def target_linux_def target_windows_def)
  from partial_build_exit_status [OF example_partial_run(1-7)]
  obtain info d fs' where
    "build_binaries accepting_env [target_linux, target_windows]
        (a_version example_release_args) (w_fs \<lparr>w_fs = project_fs, w_sent = []\<rparr>) =
          (Inr [info], fs')"
    "b_target info = target_linux"
    "fs' (BUILD_DIR @ [t_filename target_linux]) = Some (File d)"
    "fs' (BUILD_DIR @ [t_filename target_windows]) = None"
    "\<not> a_build_only example_release_args \<and>
       (\<forall>s r. \<exists>j. e_remote accepting_env s r = Inr j) \<longrightarrow>
       (\<exists>url. UploadAsset ''tok'' url (t_filename target_linux) ''application/octet-stream'' d
            \<in> set (w_sent (snd (release_run accepting_env [target_linux, target_windows]
                    example_release_args \<lparr>w_fs = project_fs, w_sent = []\<rparr>))))"
    by blast
  then have "\<exists>info d fs'.
        build_binaries accepting_env [target_linux, target_windows] ''v1.0.0'' project_fs =
          (Inr [info], fs')
      \<and> b_target info = target_linux
      \<and> fs' [''dist'', ''claracore-linux-amd64''] = Some (File d)
      \<and> fs' [''dist'', ''claracore-windows-amd64.exe''] = None
      \<and> (\<exists>url. UploadAsset ''tok'' url ''claracore-linux-amd64'' ''application/octet-stream'' d
            \<in> set (w_sent (snd (release_run accepting_env [target_linux, target_windows]
                    example_release_args \<lparr>w_fs = project_fs, w_sent = []\<rparr>))))"
    using example_partial_run(8,9) unfolding v
    by (intro exI [of _ info] exI [of _ d] exI [of _ fs']) (simp add: BUILD_DIR_def)
  with example_partial_run(1-7) show ?thesis
    unfolding v by simp
qed

section \<open>Upload failures in release.py\<close>

text \<open>
  The upload loop of \<open>create_github_release\<close> behaves like the one of
  \<^verbatim>\<open>scripts/release.py\<close>: the first upload the remote fails ends the loop, the function
  returns \<^verbatim>\<open>False\<close>, the requests sent end with the failed upload and the file system is
  untouched.
\<close>

lemma upload_asset_result:
  assumes "fs p = Some (File d)"
  shows "upload_asset R token release p n ct fs sent =
     (case R sent (UploadAsset token (case release ''upload_url'' of Some u \<Rightarrow> u | None \<Rightarrow> [])
                     n ct d) of
        Inl e \<Rightarrow> Inl e | Inr j \<Rightarrow> Inr (),
      sent @ [UploadAsset token (case release ''upload_url'' of Some u \<Rightarrow> u | None \<Rightarrow> [])
                n ct d])"
  using assms by (simp add: upload_asset_def read_bytes_def urlopen_def split: sum.splits)

lemma upload_binaries_fail:
  assumes "\<forall>b \<in> set bs. \<exists>d. fs (b_path b) = Some (File d)"
    and "i < length bs"
    and "\<forall>j<i. \<exists>resp. R (sent @ map (binary_request token release fs) (take j bs))
                          (binary_request token release fs (bs ! j)) = Inr resp"
    and "R (sent @ map (binary_request token release fs) (take i bs))
           (binary_request token release fs (bs ! i)) = Inl e"
  shows "upload_binaries R token release bs fs sent =
     (Inl e, sent @ map (binary_request token release fs) (take (Suc i) bs))"
  using assms
proof (induction bs arbitrary: sent i)
  case Nil
  then show ?case by simp
next
  case (Cons b bs)
  let ?rq = "binary_request token release fs"
  from Cons.prems(1) obtain d where d: "fs (b_path b) = Some (File d)" by auto
  have ua: "upload_asset R token release (b_path b) (t_filename (b_target b))
      ''application/octet-stream'' fs sent =
      (case R sent (?rq b) of Inl e \<Rightarrow> Inl e | Inr j \<Rightarrow> Inr (), sent @ [?rq b])"
    using upload_asset_result [of fs "b_path b" d R token release "t_filename (b_target b)"
        "''application/octet-stream''" sent] d
    by (simp add: binary_request_def)
  show ?case
  proof (cases i)
    case 0
    with Cons.prems(4) have "R sent (?rq b) = Inl e" by simp
    with ua 0 show ?thesis by simp
  next
    case (Suc k)
    from Cons.prems(3) Suc obtain resp where "R sent (?rq b) = Inr resp"
      by (auto dest: spec [of _ 0])
    with ua have step: "upload_binaries R token release (b # bs) fs sent =
        upload_binaries R token release bs fs (sent @ [?rq b])"
      by simp
    have "\<forall>j<k. \<exists>resp. R ((sent @ [?rq b]) @ map ?rq (take j bs)) (?rq (bs ! j)) = Inr resp"
    proof (intro allI impI)
      fix j assume "j < k"
      then have "Suc j < i" using Suc by simp
      with Cons.prems(3) show "\<exists>resp. R ((sent @ [?rq b]) @ map ?rq (take j bs))
          (?rq (bs ! j)) = Inr resp"
        by (auto dest!: spec [of _ "Suc j"])
    qed
    moreover have "R ((sent @ [?rq b]) @ map ?rq (take k bs)) (?rq (bs ! k)) = Inl e"
      using Cons.prems(4) Suc by simp
    moreover have "\<forall>b \<in> set bs. \<exists>d. fs (b_path b) = Some (File d)" "k < length bs"
      using Cons.prems(1,2) Suc by auto
    ultimately have "upload_binaries R token release bs fs (sent @ [?rq b]) =
        (Inl e, (sent @ [?rq b]) @ map ?rq (take (Suc k) bs))"
      by (rule Cons.IH [rotated 2])
    with step Suc show ?thesis by simp
  qed
qed

lemma create_github_release_upload_failure:
  assumes "e_remote E (w_sent W) (GetRepo token REPO_SLUG) = Inr repo"
    and "e_remote E (w_sent W @ [GetRepo token REPO_SLUG])
           (CreateRelease token REPO_SLUG (release_payload_of E v bs draft)) = Inr release"
    and "sent2 = w_sent W @ [GetRepo token REPO_SLUG,
           CreateRelease token REPO_SLUG (release_payload_of E v bs draft)]"
    and "\<forall>b \<in> set bs. \<exists>d. w_fs W (b_path b) = Some (File d)"
    and "i < length bs"
    and "\<forall>j<i. \<exists>resp. e_remote E
           (sent2 @ map (binary_request token release (w_fs W)) (take j bs))
           (binary_request token release (w_fs W) (bs ! j)) = Inr resp"
    and "e_remote E (sent2 @ map (binary_request token release (w_fs W)) (take i bs))
           (binary_request token release (w_fs W) (bs ! i)) = Inl e"
  shows "create_github_release E token v bs draft W =
     (False, W\<lparr>w_sent := sent2 @ map (binary_request token release (w_fs W)) (take (Suc i) bs)\<rparr>)"
proof -
  have "upload_binaries (e_remote E) token release bs (w_fs W) sent2 =
     (Inl e, sent2 @ map (binary_request token release (w_fs W)) (take (Suc i) bs))"
    using assms(4-7) by (rule upload_binaries_fail)
  then show ?thesis
    using assms(1,2) unfolding assms(3)
    by (simp add: create_github_release_def release_steps_def urlopen_def Let_def
        release_payload_of_def)
qed

end
